theory Spec2Isabelle
  imports Main "HOL-Library.AList" "HOL-Library.Sublist"
begin

section \<open>JavaScript strings\<close>

text \<open>
  Strings are lists of characters, read as the UTF-8 bytes of the text, so
  \<^verbatim>\<open>Buffer.byteLength(s, 'utf8')\<close> is the length of the list.
\<close>

definition nl :: char where
  "nl = CHR 0x0A"

definition byteLength :: "string \<Rightarrow> int" where
  "byteLength s = int (length s)"

text \<open>\<^verbatim>\<open>String.prototype.indexOf\<close>: the first position at which the pattern occurs.\<close>

fun indexOf :: "string \<Rightarrow> string \<Rightarrow> nat option" where
  "indexOf [] pat = (if pat = [] then Some 0 else None)"
| "indexOf (c # cs) pat =
     (if prefix pat (c # cs) then Some 0 else map_option Suc (indexOf cs pat))"

definition strIncludes :: "string \<Rightarrow> string \<Rightarrow> bool" where
  "strIncludes s pat = (indexOf s pat \<noteq> None)"

text \<open>
  The UTF-16 code units of a text given by its UTF-8 bytes, which is what JavaScript
  counts and indexes: a character of up to three bytes is one code unit, a character of
  four bytes is a surrogate pair. A surrogate on its own has no UTF-8 form; it stands
  here as the replacement character, which is how \<^verbatim>\<open>Buffer\<close> encodes it.
\<close>

definition loneSurrogate :: string where
  "loneSurrogate = [CHR 0xEF, CHR 0xBF, CHR 0xBD]"

fun codeUnits :: "string \<Rightarrow> string list" where
  "codeUnits [] = []"
| "codeUnits (c # cs) =
     (if 240 \<le> (of_char c :: nat) then loneSurrogate # loneSurrogate # codeUnits (drop 3 cs)
      else if 224 \<le> (of_char c :: nat) then (c # take 2 cs) # codeUnits (drop 2 cs)
      else if 192 \<le> (of_char c :: nat) then (c # take 1 cs) # codeUnits (drop 1 cs)
      else [c] # codeUnits cs)"

text \<open>\<^verbatim>\<open>String.prototype.length\<close>.\<close>

definition utf16Length :: "string \<Rightarrow> nat" where
  "utf16Length s = length (codeUnits s)"

text \<open>
  \<^verbatim>\<open>String.prototype.split\<close> with a string separator and no limit. For a non-empty
  separator the text is scanned from the left; each match closes the current piece and
  the scan resumes behind the match. An empty separator splits into code units.
\<close>

fun splitScan :: "string \<Rightarrow> string \<Rightarrow> string \<Rightarrow> string list" where
  "splitScan sep piece [] = [piece]"
| "splitScan sep piece (c # cs) =
     (if sep \<noteq> [] \<and> prefix sep (c # cs)
      then piece # splitScan sep [] (drop (length sep - 1) cs)
      else splitScan sep (piece @ [c]) cs)"

definition strSplit :: "string \<Rightarrow> string \<Rightarrow> string list" where
  "strSplit s sep = (if sep = [] then codeUnits s else splitScan sep [] s)"

fun strJoin :: "string \<Rightarrow> string list \<Rightarrow> string" where
  "strJoin sep [] = []"
| "strJoin sep [x] = x"
| "strJoin sep (x # y # ys) = x @ sep @ strJoin sep (y # ys)"

text \<open>
  \<^verbatim>\<open>String.prototype.trim\<close> strips the white space and line terminator characters of
  ECMAScript from both ends. In UTF-8: tab, line feed, vertical tab, form feed, carriage
  return, space, U+00A0, U+1680, U+2000 to U+200A, U+2028, U+2029, U+202F, U+205F, U+3000
  and U+FEFF.
\<close>

definition whiteSpaceChars :: "string list" where
  "whiteSpaceChars =
     [[CHR 0x09], [CHR 0x0A], [CHR 0x0B], [CHR 0x0C], [CHR 0x0D], [CHR 0x20],
      [CHR 0xC2, CHR 0xA0],
      [CHR 0xE1, CHR 0x9A, CHR 0x80],
      [CHR 0xE2, CHR 0x80, CHR 0x80], [CHR 0xE2, CHR 0x80, CHR 0x81],
      [CHR 0xE2, CHR 0x80, CHR 0x82], [CHR 0xE2, CHR 0x80, CHR 0x83],
      [CHR 0xE2, CHR 0x80, CHR 0x84], [CHR 0xE2, CHR 0x80, CHR 0x85],
      [CHR 0xE2, CHR 0x80, CHR 0x86], [CHR 0xE2, CHR 0x80, CHR 0x87],
      [CHR 0xE2, CHR 0x80, CHR 0x88], [CHR 0xE2, CHR 0x80, CHR 0x89],
      [CHR 0xE2, CHR 0x80, CHR 0x8A],
      [CHR 0xE2, CHR 0x80, CHR 0xA8], [CHR 0xE2, CHR 0x80, CHR 0xA9],
      [CHR 0xE2, CHR 0x80, CHR 0xAF],
      [CHR 0xE2, CHR 0x81, CHR 0x9F],
      [CHR 0xE3, CHR 0x80, CHR 0x80],
      [CHR 0xEF, CHR 0xBB, CHR 0xBF]]"

text \<open>Dropping, from the front of a text, every leading occurrence of one of the given strings.\<close>

fun dropLeading :: "string list \<Rightarrow> string \<Rightarrow> string" where
  "dropLeading ws [] = []"
| "dropLeading ws (c # cs) =
     (case find (\<lambda>w. w \<noteq> [] \<and> prefix w (c # cs)) ws of
        None \<Rightarrow> c # cs
      | Some w \<Rightarrow> dropLeading ws (drop (length w - 1) cs))"

definition strTrim :: "string \<Rightarrow> string" where
  "strTrim s = rev (dropLeading (map rev whiteSpaceChars) (rev (dropLeading whiteSpaceChars s)))"

text \<open>
  \<^verbatim>\<open>GetSubstitution\<close> of ECMAScript for a string pattern (no capture groups): in the
  replacement text \<^verbatim>\<open>$$\<close> stands for a dollar sign, \<^verbatim>\<open>$&\<close> for the matched text,
  \<^verbatim>\<open>$`\<close> for the text before the match and \<^verbatim>\<open>$'\<close> for the text after it; every
  other character, a dollar sign followed by anything else included, stands for itself.
\<close>

fun getSubstitution :: "string \<Rightarrow> string \<Rightarrow> nat \<Rightarrow> string \<Rightarrow> string" where
  "getSubstitution matched str position [] = []"
| "getSubstitution matched str position [c] = [c]"
| "getSubstitution matched str position (c # d # rest) =
     (if c = CHR ''$'' \<and> d = CHR ''$'' then CHR ''$'' # getSubstitution matched str position rest
      else if c = CHR ''$'' \<and> d = CHR ''&'' then matched @ getSubstitution matched str position rest
      else if c = CHR ''$'' \<and> d = CHR 0x60 then take position str @ getSubstitution matched str position rest
      else if c = CHR ''$'' \<and> d = CHR 0x27
        then drop (position + length matched) str @ getSubstitution matched str position rest
      else c # getSubstitution matched str position (d # rest))"

text \<open>
  \<^verbatim>\<open>String.prototype.replace\<close> with a string pattern: only the first occurrence is
  replaced, by the substitution of the replacement text.
\<close>

definition strReplace :: "string \<Rightarrow> string \<Rightarrow> string \<Rightarrow> string" where
  "strReplace s searchValue replaceValue =
     (case indexOf s searchValue of
        None \<Rightarrow> s
      | Some position \<Rightarrow>
          take position s @ getSubstitution searchValue s position replaceValue
            @ drop (position + length searchValue) s)"

text \<open>
  \<^verbatim>\<open>String.prototype.padEnd\<close> and \<^verbatim>\<open>padStart\<close> with the default filler: spaces up to
  the given length in code units.
\<close>

definition padEnd :: "nat \<Rightarrow> string \<Rightarrow> string" where
  "padEnd n s = s @ replicate (n - utf16Length s) CHR '' ''"

definition padStart :: "nat \<Rightarrow> string \<Rightarrow> string" where
  "padStart n s = replicate (n - utf16Length s) CHR '' '' @ s"

text \<open>\<^verbatim>\<open>String.prototype.toLowerCase\<close>, on the ASCII letters.\<close>

definition lowerChar :: "char \<Rightarrow> char" where
  "lowerChar c =
     (let n = (of_char c :: nat) in if 65 \<le> n \<and> n \<le> 90 then char_of (n + 32) else c)"

definition toLowerCase :: "string \<Rightarrow> string" where
  "toLowerCase s = map lowerChar s"

text \<open>Decimal rendering of an integer, as a template literal prints a number.\<close>

fun showNat :: "nat \<Rightarrow> string" where
  "showNat n =
     (if n < 10 then [''0123456789'' ! n]
      else showNat (n div 10) @ [''0123456789'' ! (n mod 10)])"

declare showNat.simps [simp del]

definition showInt :: "int \<Rightarrow> string" where
  "showInt i = (if i < 0 then CHR ''-'' # showNat (nat (- i)) else showNat (nat i))"

section \<open>Summary model (parsers/types.ts)\<close>

record FunctionSummary =
  fn_name :: string
  fn_doc :: "string option"
  signature :: string
  isUnsafe :: bool
  isAsync :: bool
  fn_isPublic :: bool

record FieldSummary =
  field_name :: string
  field_type :: string
  field_doc :: "string option"
  field_isPublic :: bool

record StructSummary =
  struct_name :: string
  struct_doc :: "string option"
  struct_generics :: string
  struct_fields :: "FieldSummary list"
  struct_methods :: "FunctionSummary list"
  struct_derives :: "string list"

record TraitSummary =
  trait_name :: string
  trait_doc :: "string option"
  trait_generics :: string
  bounds :: string
  trait_methods :: "FunctionSummary list"

record EnumSummary =
  enum_name :: string
  enum_doc :: "string option"
  enum_generics :: string
  variants :: "string list"
  enum_derives :: "string list"

record TypeAliasSummary =
  alias_name :: string
  alias_doc :: "string option"
  alias_definition :: string

record ConstantSummary =
  const_name :: string
  const_doc :: "string option"
  const_type :: string
  isStatic :: bool

record FileSummary =
  purpose :: "string option"
  structs :: "StructSummary list"
  traits :: "TraitSummary list"
  enums :: "EnumSummary list"
  fns :: "FunctionSummary list"
  typeAliases :: "TypeAliasSummary list"
  constants :: "ConstantSummary list"
  reexports :: "string list"

datatype ParseOutcome = ParseResult FileSummary string | ParseError string

section \<open>Renderer of the Rust parser (parsers/rust.ts)\<close>

text \<open>
  \<^verbatim>\<open>formatSummary\<close> pushes lines onto an array section by section and joins them at the
  end. Each section is the list of lines it pushes. Indexing an empty array gives
  \<^verbatim>\<open>undefined\<close>, which a template literal prints as the word.
\<close>

definition firstOf :: "string list \<Rightarrow> string" where
  "firstOf xs = (case xs of [] \<Rightarrow> ''undefined'' | x # _ \<Rightarrow> x)"

definition docLines :: "string option \<Rightarrow> string list" where
  "docLines d =
     (case d of
        None \<Rightarrow> []
      | Some t \<Rightarrow> if t \<noteq> [] then [''/// '' @ firstOf (strSplit t [nl])] else [])"

definition purposeSection :: "FileSummary \<Rightarrow> string list" where
  "purposeSection m =
     (case purpose m of
        None \<Rightarrow> []
      | Some p \<Rightarrow>
          if p \<noteq> [] then
            (let purposeLines = filter (\<lambda>l. strTrim l \<noteq> []) (strSplit p [nl])
             in [''// Purpose: '' @ firstOf purposeLines]
                @ map (\<lambda>l. ''//          '' @ l) (drop 1 purposeLines)
                @ [[]])
          else [])"

definition reexportSection :: "FileSummary \<Rightarrow> string list" where
  "reexportSection m = (if length (reexports m) > 0 then reexports m @ [[]] else [])"

definition constantLines :: "ConstantSummary \<Rightarrow> string list" where
  "constantLines c =
     docLines (const_doc c)
     @ [''pub '' @ (if isStatic c then ''static'' else ''const'') @ '' '' @ const_name c
          @ '': '' @ const_type c @ '';'']"

definition constantSection :: "FileSummary \<Rightarrow> string list" where
  "constantSection m =
     concat (map constantLines (constants m)) @ (if length (constants m) > 0 then [[]] else [])"

definition aliasLines :: "TypeAliasSummary \<Rightarrow> string list" where
  "aliasLines a = docLines (alias_doc a) @ [''pub '' @ alias_definition a]"

definition aliasSection :: "FileSummary \<Rightarrow> string list" where
  "aliasSection m =
     concat (map aliasLines (typeAliases m)) @ (if length (typeAliases m) > 0 then [[]] else [])"

definition deriveLines :: "string list \<Rightarrow> string list" where
  "deriveLines ds = (if length ds > 0 then [''#[derive('' @ strJoin '', '' ds @ '')]''] else [])"

definition structLines :: "StructSummary \<Rightarrow> string list" where
  "structLines st =
     deriveLines (struct_derives st)
     @ docLines (struct_doc st)
     @ [''pub struct '' @ struct_name st @ struct_generics st @ '' { ... }'']
     @ (let pubFields = filter field_isPublic (struct_fields st)
        in if length pubFields > 0
           then ''  // Public fields:''
                # map (\<lambda>f. ''  pub '' @ field_name f @ '': '' @ field_type f @ '','') pubFields
           else [])
     @ (if length (struct_methods st) > 0
        then [''impl'' @ struct_generics st @ '' '' @ struct_name st @ struct_generics st @ '' {'']
             @ map (\<lambda>f. ''    '' @ signature f @ '';'') (struct_methods st)
             @ [''}'']
        else [])
     @ [[]]"

definition enumLines :: "EnumSummary \<Rightarrow> string list" where
  "enumLines e =
     deriveLines (enum_derives e)
     @ docLines (enum_doc e)
     @ [''pub enum '' @ enum_name e @ enum_generics e @ '' {'']
     @ map (\<lambda>v. ''    '' @ v @ '','') (variants e)
     @ [''}'', []]"

definition traitLines :: "TraitSummary \<Rightarrow> string list" where
  "traitLines t =
     docLines (trait_doc t)
     @ [''pub trait '' @ trait_name t @ trait_generics t
          @ (if bounds t \<noteq> [] then '': '' @ bounds t else []) @ '' {'']
     @ map (\<lambda>f. ''    '' @ signature f @ '';'') (trait_methods t)
     @ [''}'', []]"

definition functionLines :: "FunctionSummary \<Rightarrow> string list" where
  "functionLines f = docLines (fn_doc f) @ [signature f @ '';'']"

definition formatSummary :: "FileSummary \<Rightarrow> string" where
  "formatSummary m =
     strTrim (strJoin [nl]
       (purposeSection m
        @ reexportSection m
        @ constantSection m
        @ aliasSection m
        @ concat (map structLines (structs m))
        @ concat (map enumLines (enums m))
        @ concat (map traitLines (traits m))
        @ concat (map functionLines (fns m))))"

section \<open>Renderer of the PHP parser (parsers/php.ts)\<close>

definition phpDocLines :: "string option \<Rightarrow> string list" where
  "phpDocLines d =
     (case d of
        None \<Rightarrow> []
      | Some t \<Rightarrow> if t \<noteq> [] then [''/** '' @ firstOf (strSplit t [nl]) @ '' */''] else [])"

definition phpPurposeSection :: "FileSummary \<Rightarrow> string list" where
  "phpPurposeSection m =
     (case purpose m of
        None \<Rightarrow> []
      | Some p \<Rightarrow>
          if p \<noteq> [] then [''/**''] @ map (\<lambda>l. '' * '' @ l) (strSplit p [nl]) @ ['' */'', []]
          else [])"

definition phpConstantLines :: "ConstantSummary \<Rightarrow> string list" where
  "phpConstantLines c =
     phpDocLines (const_doc c) @ [''const '' @ const_name c @ '': '' @ const_type c @ '';'']"

definition phpConstantSection :: "FileSummary \<Rightarrow> string list" where
  "phpConstantSection m =
     concat (map phpConstantLines (constants m)) @ (if length (constants m) > 0 then [[]] else [])"

definition phpEnumLines :: "EnumSummary \<Rightarrow> string list" where
  "phpEnumLines e =
     phpDocLines (enum_doc e)
     @ [''enum '' @ enum_name e @ '' {'']
     @ map (\<lambda>v. ''    case '' @ v @ '';'') (variants e)
     @ [''}'', []]"

definition phpInterfaceLines :: "TraitSummary \<Rightarrow> string list" where
  "phpInterfaceLines t =
     phpDocLines (trait_doc t)
     @ [''interface '' @ trait_name t
          @ (if bounds t \<noteq> [] then '' extends '' @ bounds t else []) @ '' {'']
     @ map (\<lambda>f. ''    '' @ signature f @ '';'') (trait_methods t)
     @ [''}'', []]"

definition phpClassLines :: "StructSummary \<Rightarrow> string list" where
  "phpClassLines cls =
     phpDocLines (struct_doc cls)
     @ [(if length (struct_derives cls) > 0 then strJoin '' '' (struct_derives cls) @ '' '' else [])
          @ ''class '' @ struct_name cls
          @ (if struct_generics cls \<noteq> [] then '' '' @ struct_generics cls else []) @ '' {'']
     @ map (\<lambda>f. ''    public '' @ field_type f @ '' $'' @ field_name f @ '';'') (struct_fields cls)
     @ map (\<lambda>f. ''    '' @ signature f @ '';'') (struct_methods cls)
     @ [''}'', []]"

definition phpFunctionLines :: "FunctionSummary \<Rightarrow> string list" where
  "phpFunctionLines f = phpDocLines (fn_doc f) @ [signature f @ '';'']"

text \<open>\<^verbatim>\<open>formatSummary\<close> of the PHP parser; the array starts with the line \<^verbatim>\<open><?php\<close>.\<close>

definition formatSummaryPHP :: "FileSummary \<Rightarrow> string" where
  "formatSummaryPHP m =
     strTrim (strJoin [nl]
       ([''<?php'']
        @ phpPurposeSection m
        @ reexportSection m
        @ phpConstantSection m
        @ concat (map phpEnumLines (enums m))
        @ concat (map phpInterfaceLines (traits m))
        @ concat (map phpClassLines (structs m))
        @ concat (map phpFunctionLines (fns m))))"

section \<open>External collaborators\<close>

text \<open>
  What the code takes from outside is a parameter of the model, collected in one record:
  the functions of Node's \<^verbatim>\<open>path\<close> module, the SHA-256 digest of \<^verbatim>\<open>crypto.createHash\<close>,
  the syntax-tree extraction of each language (for Rust and PHP the walk that fills the
  summary model, which may raise; for the other languages the whole parser), and the
  floating-point rendering \<^verbatim>\<open>((a / b) * 100).toFixed(0)\<close> of the status report.
\<close>

record platform =
  path_isAbsolute :: "string \<Rightarrow> bool"
  path_resolve :: "string \<Rightarrow> string"
  path_normalize :: "string \<Rightarrow> string"
  path_relative :: "string \<Rightarrow> string \<Rightarrow> string"
  path_extname :: "string \<Rightarrow> string"
  sha256_hex :: "string \<Rightarrow> string"
  rustExtract :: "string \<Rightarrow> string + FileSummary"
  parsePython :: "string \<Rightarrow> ParseOutcome"
  parseTypeScript :: "string \<Rightarrow> string \<Rightarrow> ParseOutcome"
  phpExtract :: "string \<Rightarrow> string + FileSummary"
  parseCSharp :: "string \<Rightarrow> ParseOutcome"
  parseGDScript :: "string \<Rightarrow> ParseOutcome"
  percentFixed0 :: "int \<Rightarrow> int \<Rightarrow> string"

text \<open>
  \<^verbatim>\<open>parseRust\<close> and \<^verbatim>\<open>parsePHP\<close>: extraction inside \<^verbatim>\<open>try\<close>, then rendering; an
  exception becomes the failure outcome with its message.
\<close>

definition parseRust :: "platform \<Rightarrow> string \<Rightarrow> ParseOutcome" where
  "parseRust P source =
     (case rustExtract P source of
        Inl message \<Rightarrow> ParseError message
      | Inr summary \<Rightarrow> ParseResult summary (formatSummary summary))"

definition parsePHP :: "platform \<Rightarrow> string \<Rightarrow> ParseOutcome" where
  "parsePHP P source =
     (case phpExtract P source of
        Inl message \<Rightarrow> ParseError message
      | Inr summary \<Rightarrow> ParseResult summary (formatSummaryPHP summary))"

section \<open>Parser registry (parsers/index.ts)\<close>

definition SUPPORTED_EXTENSIONS :: "string list" where
  "SUPPORTED_EXTENSIONS =
     [''.rs'', ''.py'', ''.ts'', ''.tsx'', ''.js'', ''.jsx'', ''.php'', ''.cs'', ''.gd'']"

definition isSupported :: "platform \<Rightarrow> string \<Rightarrow> bool" where
  "isSupported P filePath =
     (let ext = toLowerCase (path_extname P filePath) in ext \<in> set SUPPORTED_EXTENSIONS)"

definition rustSupports :: "string \<Rightarrow> bool" where
  "rustSupports ext = (ext = ''.rs'')"

definition pythonSupports :: "string \<Rightarrow> bool" where
  "pythonSupports ext = (ext = ''.py'')"

definition tsSupports :: "string \<Rightarrow> bool" where
  "tsSupports ext = (ext = ''.ts'' \<or> ext = ''.tsx'' \<or> ext = ''.js'' \<or> ext = ''.jsx'')"

definition phpSupports :: "string \<Rightarrow> bool" where
  "phpSupports ext = (ext = ''.php'')"

definition csharpSupports :: "string \<Rightarrow> bool" where
  "csharpSupports ext = (ext = ''.cs'')"

definition gdscriptSupports :: "string \<Rightarrow> bool" where
  "gdscriptSupports ext = (ext = ''.gd'')"

text \<open>\<^verbatim>\<open>parseFile\<close> returns \<^verbatim>\<open>null\<close> (here \<open>None\<close>) for an unsupported file type.\<close>

definition parseFile :: "platform \<Rightarrow> string \<Rightarrow> string \<Rightarrow> ParseOutcome option" where
  "parseFile P filePath content =
     (let ext = toLowerCase (path_extname P filePath)
      in if rustSupports ext then Some (parseRust P content)
         else if pythonSupports ext then Some (parsePython P content)
         else if tsSupports ext then Some (parseTypeScript P content ext)
         else if phpSupports ext then Some (parsePHP P content)
         else if csharpSupports ext then Some (parseCSharp P content)
         else if gdscriptSupports ext then Some (parseGDScript P content)
         else None)"

definition formatFileHeader :: "string \<Rightarrow> bool \<Rightarrow> string" where
  "formatFileHeader relPath isSummary =
     (let tag = (if isSummary then ''SUMMARY'' else ''FULL'')
      in ''// === '' @ relPath @ '' ['' @ tag @ ''] ==='')"

section \<open>Context cache (state.ts)\<close>

record CachedSummary =
  summary :: string
  contentHash :: string
  fullSize :: int
  summarySize :: int
  lastAccessed :: nat
  relativePath :: string

record ContextConfig =
  maxTrackedFiles :: int
  maxDocLines :: int
  projectRoot :: string

text \<open>
  \<^verbatim>\<open>summaries\<close> is a JavaScript \<^verbatim>\<open>Map\<close>: an insertion-ordered association list with
  unique keys. \<^verbatim>\<open>Map.set\<close> is \<open>AList.update\<close> (overwrite in place, or append),
  \<^verbatim>\<open>Map.delete\<close> is \<open>AList.delete\<close>, \<^verbatim>\<open>Map.get\<close> is \<open>map_of\<close> and \<^verbatim>\<open>Map.size\<close> is the
  length of the list.
\<close>

record ContextState =
  activeFile :: "string option"
  summaries :: "(string \<times> CachedSummary) list"
  accessOrder :: "string list"
  config :: ContextConfig

text \<open>The constructor, with the defaults taken when the caller passes no configuration.\<close>

definition defaultConfig :: "string \<Rightarrow> ContextConfig" where
  "defaultConfig cwd = \<lparr>maxTrackedFiles = 50, maxDocLines = 5, projectRoot = cwd\<rparr>"

definition newContextState :: "ContextConfig \<Rightarrow> ContextState" where
  "newContextState c = \<lparr>activeFile = None, summaries = [], accessOrder = [], config = c\<rparr>"

definition getActiveFile :: "ContextState \<Rightarrow> string option" where
  "getActiveFile s = activeFile s"

definition normalizePath :: "platform \<Rightarrow> string \<Rightarrow> string" where
  "normalizePath P filePath =
     (if path_isAbsolute P filePath then path_normalize P filePath else path_resolve P filePath)"

definition getRelativePath :: "platform \<Rightarrow> ContextState \<Rightarrow> string \<Rightarrow> string" where
  "getRelativePath P s filePath =
     (let absolute = (if path_isAbsolute P filePath then filePath else path_resolve P filePath)
      in path_relative P (projectRoot (config s)) absolute)"

definition hashContent :: "platform \<Rightarrow> string \<Rightarrow> string" where
  "hashContent P content = sha256_hex P content"

definition updateAccessOrder :: "ContextState \<Rightarrow> string \<Rightarrow> ContextState" where
  "updateAccessOrder s filePath =
     s\<lparr>accessOrder := filter (\<lambda>p. p \<noteq> filePath) (accessOrder s) @ [filePath]\<rparr>"

text \<open>\<^verbatim>\<open>setActiveFile\<close> returns the previously active path together with the new state.\<close>

definition setActiveFile :: "platform \<Rightarrow> ContextState \<Rightarrow> string \<Rightarrow> string option \<times> ContextState" where
  "setActiveFile P s filePath =
     (let previousActive = activeFile s;
          s1 = s\<lparr>activeFile := Some (normalizePath P filePath)\<rparr>
      in (previousActive, updateAccessOrder s1 (normalizePath P filePath)))"

definition clearActiveFile :: "ContextState \<Rightarrow> ContextState" where
  "clearActiveFile s = s\<lparr>activeFile := None\<rparr>"

definition isActive :: "platform \<Rightarrow> ContextState \<Rightarrow> string \<Rightarrow> bool" where
  "isActive P s filePath = (activeFile s = Some (normalizePath P filePath))"

definition getSummary :: "platform \<Rightarrow> ContextState \<Rightarrow> string \<Rightarrow> CachedSummary option" where
  "getSummary P s filePath = map_of (summaries s) (normalizePath P filePath)"

text \<open>
  One iteration of the \<^verbatim>\<open>while\<close> loop of \<^verbatim>\<open>evictIfNeeded\<close>: \<^verbatim>\<open>shift()\<close> on an empty
  array returns \<^verbatim>\<open>undefined\<close> and changes nothing; \<^verbatim>\<open>oldest && ...\<close> is false for
  \<^verbatim>\<open>undefined\<close> and for the empty string.
\<close>

definition evictStep :: "ContextState \<Rightarrow> ContextState" where
  "evictStep s =
     (case accessOrder s of
        [] \<Rightarrow> s
      | oldest # rest \<Rightarrow>
          (let s1 = s\<lparr>accessOrder := rest\<rparr>
           in if oldest \<noteq> [] \<and> Some oldest \<noteq> activeFile s1
              then s1\<lparr>summaries := AList.delete oldest (summaries s1)\<rparr>
              else s1))"

text \<open>The loop condition \<^verbatim>\<open>this.summaries.size > this.config.maxTrackedFiles\<close>.\<close>

definition overLimit :: "ContextState \<Rightarrow> bool" where
  "overLimit s = (int (length (summaries s)) > maxTrackedFiles (config s))"

text \<open>
  The loop itself. It may run forever, so it is a partial function: \<open>None\<close> is
  the value of a call that never returns (the loop body raises nothing).
\<close>

partial_function (option) evictIfNeeded :: "ContextState \<Rightarrow> ContextState option" where
  "evictIfNeeded s = (if overLimit s then evictIfNeeded (evictStep s) else Some s)"

text \<open>
  \<^verbatim>\<open>setSummary\<close> up to the call of \<^verbatim>\<open>evictIfNeeded\<close>: the entry is stored and recency is
  bumped. \<open>now\<close> is the value of \<^verbatim>\<open>new Date()\<close> at the call.
\<close>

definition storeSummary :: "platform \<Rightarrow> nat \<Rightarrow> ContextState \<Rightarrow> string \<Rightarrow> string \<Rightarrow> string \<Rightarrow> ContextState" where
  "storeSummary P now s filePath summaryText fullContent =
     (let normalizedPath = normalizePath P filePath;
          contentHash = hashContent P fullContent;
          entry = \<lparr>summary = summaryText,
                   contentHash = contentHash,
                   fullSize = byteLength fullContent,
                   summarySize = byteLength summaryText,
                   lastAccessed = now,
                   relativePath = getRelativePath P s filePath\<rparr>;
          s1 = s\<lparr>summaries := AList.update normalizedPath entry (summaries s)\<rparr>
      in updateAccessOrder s1 normalizedPath)"

definition setSummary :: "platform \<Rightarrow> nat \<Rightarrow> ContextState \<Rightarrow> string \<Rightarrow> string \<Rightarrow> string \<Rightarrow> ContextState option" where
  "setSummary P now s filePath summaryText fullContent =
     evictIfNeeded (storeSummary P now s filePath summaryText fullContent)"

section \<open>File system\<close>

text \<open>
  The disk as the code sees it through \<^verbatim>\<open>fs\<close>: a map from path strings to contents; a
  read fails on a path with no content, a write (with the creation of the parent
  directory, where \<^verbatim>\<open>writeFile\<close> does it) fails on a path marked read-only.
\<close>

record filesystem =
  files :: "string \<Rightarrow> string option"
  readOnly :: "string \<Rightarrow> bool"

datatype error = FsReadError string | FsWriteError string | JsError string

definition readFileSync :: "filesystem \<Rightarrow> string \<Rightarrow> error + string" where
  "readFileSync fs p = (case files fs p of None \<Rightarrow> Inl (FsReadError p) | Some content \<Rightarrow> Inr content)"

definition writeFileSync :: "filesystem \<Rightarrow> string \<Rightarrow> string \<Rightarrow> error + filesystem" where
  "writeFileSync fs p content =
     (if readOnly fs p then Inl (FsWriteError p) else Inr (fs\<lparr>files := (files fs)(p \<mapsto> content)\<rparr>))"

text \<open>\<^verbatim>\<open>isStale\<close> reads the file under the path as given, inside \<^verbatim>\<open>try\<close>.\<close>

definition isStale :: "platform \<Rightarrow> filesystem \<Rightarrow> ContextState \<Rightarrow> string \<Rightarrow> bool" where
  "isStale P fs s filePath =
     (let normalizedPath = normalizePath P filePath
      in case map_of (summaries s) normalizedPath of
           None \<Rightarrow> True
         | Some cached \<Rightarrow>
             (case readFileSync fs filePath of
                Inl e \<Rightarrow> True
              | Inr currentContent \<Rightarrow> hashContent P currentContent \<noteq> contentHash cached))"

text \<open>\<^verbatim>\<open>forget\<close> returns whether an entry was deleted, together with the new state.\<close>

definition forget :: "platform \<Rightarrow> ContextState \<Rightarrow> string \<Rightarrow> bool \<times> ContextState" where
  "forget P s filePath =
     (let normalizedPath = normalizePath P filePath;
          deleted = (map_of (summaries s) normalizedPath \<noteq> None);
          s1 = s\<lparr>summaries := AList.delete normalizedPath (summaries s)\<rparr>;
          s2 = (if activeFile s1 = Some normalizedPath then s1\<lparr>activeFile := None\<rparr> else s1)
      in (deleted, s2\<lparr>accessOrder := filter (\<lambda>p. p \<noteq> normalizedPath) (accessOrder s2)\<rparr>))"

record StatusEntry =
  st_path :: string
  st_relativePath :: string
  st_fullSize :: int
  st_summarySize :: int
  st_savings :: int
  st_lastAccessed :: nat

record Status =
  st_activeFile :: "string option"
  st_summaries :: "StatusEntry list"
  totalFullSize :: int
  totalSummarySize :: int
  totalSavings :: int

definition getStatus :: "ContextState \<Rightarrow> Status" where
  "getStatus s =
     (let summaryList =
            map (\<lambda>(path, cached).
                   \<lparr>st_path = path,
                    st_relativePath = relativePath cached,
                    st_fullSize = fullSize cached,
                    st_summarySize = summarySize cached,
                    st_savings = fullSize cached - summarySize cached,
                    st_lastAccessed = lastAccessed cached\<rparr>) (summaries s);
          totalFull = foldl (\<lambda>sum e. sum + st_fullSize e) 0 summaryList;
          totalSummary = foldl (\<lambda>sum e. sum + st_summarySize e) 0 summaryList
      in \<lparr>st_activeFile = activeFile s,
          st_summaries = summaryList,
          totalFullSize = totalFull,
          totalSummarySize = totalSummary,
          totalSavings = totalFull - totalSummary\<rparr>)"

section \<open>Tools (tools.ts)\<close>

text \<open>
  \<^verbatim>\<open>(bytes / d).toFixed(1)\<close> for \<open>d\<close> a power of two: the quotient is exact in floating
  point (for sizes below \<open>2^53\<close>), and \<^verbatim>\<open>toFixed\<close> rounds it to the nearest tenth, the
  larger one on a tie.
\<close>

definition toFixed1 :: "int \<Rightarrow> int \<Rightarrow> string" where
  "toFixed1 bytes d =
     (let n = (10 * bytes + d div 2) div d in showInt (n div 10) @ ''.'' @ showInt (n mod 10))"

definition formatSize :: "int \<Rightarrow> string" where
  "formatSize bytes =
     (if bytes < 1024 then showInt bytes @ '' B''
      else if bytes < 1024 * 1024 then toFixed1 bytes 1024 @ '' KB''
      else toFixed1 bytes (1024 * 1024) @ '' MB'')"

text \<open>\<^verbatim>\<open>path.isAbsolute(filePath) ? filePath : path.resolve(filePath)\<close>, the first step of every tool.\<close>

definition absolutePathOf :: "platform \<Rightarrow> string \<Rightarrow> string" where
  "absolutePathOf P filePath = (if path_isAbsolute P filePath then filePath else path_resolve P filePath)"

text \<open>
  \<^verbatim>\<open>summarizeFile\<close>: everything is inside \<^verbatim>\<open>try\<close>, and a failure leaves the state as it
  is. The result is \<open>None\<close> only when \<^verbatim>\<open>setSummary\<close> does not return.
\<close>

definition summarizeFile :: "platform \<Rightarrow> nat \<Rightarrow> filesystem \<Rightarrow> ContextState \<Rightarrow> string \<Rightarrow> ContextState option" where
  "summarizeFile P now fs s filePath =
     (case readFileSync fs filePath of
        Inl e \<Rightarrow> Some s
      | Inr content \<Rightarrow>
          (case parseFile P filePath content of
             Some (ParseResult sm formattedSummary) \<Rightarrow> setSummary P now s filePath formattedSummary content
           | _ \<Rightarrow> Some s))"

text \<open>
  The block \<^verbatim>\<open>if (previousActive && previousActive !== absolutePath) await
  summarizeFile(previousActive)\<close> that \<^verbatim>\<open>readFile\<close>, \<^verbatim>\<open>editFile\<close> and \<^verbatim>\<open>writeFile\<close> share.
\<close>

definition summarizePrevious :: "platform \<Rightarrow> nat \<Rightarrow> filesystem \<Rightarrow> ContextState \<Rightarrow> string \<Rightarrow> ContextState option" where
  "summarizePrevious P now fs s absolutePath =
     (case getActiveFile s of
        None \<Rightarrow> Some s
      | Some previousActive \<Rightarrow>
          if previousActive \<noteq> [] \<and> previousActive \<noteq> absolutePath
          then summarizeFile P now fs s previousActive
          else Some s)"

text \<open>
  Each tool returns its text or the error it throws, with the state (and the file system,
  where it writes) after the call; \<open>None\<close> is a call that does not return.
\<close>

definition readFile :: "platform \<Rightarrow> nat \<Rightarrow> filesystem \<Rightarrow> ContextState \<Rightarrow> string \<Rightarrow> ((error + string) \<times> ContextState) option" where
  "readFile P now fs s filePath =
     (let absolutePath = absolutePathOf P filePath
      in case readFileSync fs absolutePath of
           Inl e \<Rightarrow> Some (Inl e, s)
         | Inr content \<Rightarrow>
             (let relPath = getRelativePath P s absolutePath
              in if \<not> isSupported P absolutePath
                 then Some (Inr (formatFileHeader relPath False @ [nl]
                                 @ ''// (Unsupported file type - not tracked for compaction)''
                                 @ [nl, nl] @ content), s)
                 else (case summarizePrevious P now fs s absolutePath of
                         None \<Rightarrow> None
                       | Some s1 \<Rightarrow>
                           Some (Inr (formatFileHeader relPath False @ [nl, nl] @ content),
                                 snd (setActiveFile P s1 absolutePath)))))"

definition couldNotGenerate :: "string \<Rightarrow> string \<Rightarrow> string \<Rightarrow> string" where
  "couldNotGenerate relPath errorMsg content =
     formatFileHeader relPath False @ [nl] @ ''// (Could not generate summary'' @ errorMsg @ '')''
       @ [nl, nl] @ content"

text \<open>The part of \<^verbatim>\<open>peekFile\<close> below the comment \<^verbatim>\<open>Generate new summary\<close>.\<close>

definition peekGenerate :: "platform \<Rightarrow> nat \<Rightarrow> ContextState \<Rightarrow> string \<Rightarrow> string \<Rightarrow> string \<Rightarrow> ((error + string) \<times> ContextState) option" where
  "peekGenerate P now s absolutePath relPath content =
     (case parseFile P absolutePath content of
        Some (ParseResult sm formattedSummary) \<Rightarrow>
          (case setSummary P now s absolutePath formattedSummary content of
             None \<Rightarrow> None
           | Some s1 \<Rightarrow> Some (Inr (formatFileHeader relPath True @ [nl, nl] @ formattedSummary), s1))
      | Some (ParseError message) \<Rightarrow>
          Some (Inr (couldNotGenerate relPath ('' (Parse error: '' @ message @ '')'') content), s)
      | None \<Rightarrow> Some (Inr (couldNotGenerate relPath [] content), s))"

definition peekFile :: "platform \<Rightarrow> nat \<Rightarrow> filesystem \<Rightarrow> ContextState \<Rightarrow> string \<Rightarrow> ((error + string) \<times> ContextState) option" where
  "peekFile P now fs s filePath =
     (let absolutePath = absolutePathOf P filePath
      in case readFileSync fs absolutePath of
           Inl e \<Rightarrow> Some (Inl e, s)
         | Inr content \<Rightarrow>
             (let relPath = getRelativePath P s absolutePath
              in if \<not> isSupported P absolutePath
                 then Some (Inr (formatFileHeader relPath False @ [nl]
                                 @ ''// (Unsupported file type - returning full contents)''
                                 @ [nl, nl] @ content), s)
                 else if isActive P s absolutePath
                 then Some (Inr (formatFileHeader relPath False @ [nl]
                                 @ ''// (This is the active file)'' @ [nl, nl] @ content), s)
                 else (case getSummary P s absolutePath of
                         Some cached \<Rightarrow>
                           if \<not> isStale P fs s absolutePath
                           then Some (Inr (formatFileHeader relPath True @ [nl, nl] @ summary cached), s)
                           else peekGenerate P now s absolutePath relPath content
                       | None \<Rightarrow> peekGenerate P now s absolutePath relPath content)))"

text \<open>
  The part that \<^verbatim>\<open>editFile\<close> and \<^verbatim>\<open>writeFile\<close> share once the file is written and its type
  is supported: summarize the previous active file, activate this one, and cache its
  own summary when it parses.
\<close>

definition activateAndCache :: "platform \<Rightarrow> nat \<Rightarrow> filesystem \<Rightarrow> ContextState \<Rightarrow> string \<Rightarrow> string \<Rightarrow> ContextState option" where
  "activateAndCache P now fs s absolutePath content =
     (case summarizePrevious P now fs s absolutePath of
        None \<Rightarrow> None
      | Some s1 \<Rightarrow>
          (let s2 = snd (setActiveFile P s1 absolutePath)
           in case parseFile P absolutePath content of
                Some (ParseResult sm formattedSummary) \<Rightarrow>
                  setSummary P now s2 absolutePath formattedSummary content
              | _ \<Rightarrow> Some s2))"

definition notFoundMessage :: "string \<Rightarrow> string" where
  "notFoundMessage relPath =
     ''The specified old_string was not found in '' @ relPath @ ''. ''
     @ ''Make sure you'' @ [CHR 0x27] @ ''re using the exact string including whitespace and indentation.''"

definition ambiguousMessage :: "int \<Rightarrow> string \<Rightarrow> string" where
  "ambiguousMessage occurrences relPath =
     ''The specified old_string appears '' @ showInt occurrences @ '' times in '' @ relPath @ ''. ''
     @ ''Please provide a more specific string that uniquely identifies the location.''"

definition editFile :: "platform \<Rightarrow> nat \<Rightarrow> filesystem \<Rightarrow> ContextState \<Rightarrow> string \<Rightarrow> string \<Rightarrow> string \<Rightarrow> ((error + string) \<times> filesystem \<times> ContextState) option" where
  "editFile P now fs s filePath oldString newString =
     (let absolutePath = absolutePathOf P filePath;
          relPath = getRelativePath P s absolutePath
      in case readFileSync fs absolutePath of
           Inl e \<Rightarrow> Some (Inl e, fs, s)
         | Inr content \<Rightarrow>
             if \<not> strIncludes content oldString
             then Some (Inl (JsError (notFoundMessage relPath)), fs, s)
             else (let occurrences = int (length (strSplit content oldString)) - 1
                   in if occurrences > 1
                      then Some (Inl (JsError (ambiguousMessage occurrences relPath)), fs, s)
                      else (let newContent = strReplace content oldString newString
                            in case writeFileSync fs absolutePath newContent of
                                 Inl e \<Rightarrow> Some (Inl e, fs, s)
                               | Inr fs1 \<Rightarrow>
                                   if \<not> isSupported P absolutePath
                                   then Some (Inr (''Successfully edited '' @ relPath
                                                   @ '' (unsupported file type - not tracked)''), fs1, s)
                                   else (case activateAndCache P now fs1 s absolutePath newContent of
                                           None \<Rightarrow> None
                                         | Some s3 \<Rightarrow>
                                             Some (Inr (''Successfully edited '' @ relPath), fs1, s3)))))"

definition writeFile :: "platform \<Rightarrow> nat \<Rightarrow> filesystem \<Rightarrow> ContextState \<Rightarrow> string \<Rightarrow> string \<Rightarrow> ((error + string) \<times> filesystem \<times> ContextState) option" where
  "writeFile P now fs s filePath content =
     (let absolutePath = absolutePathOf P filePath;
          relPath = getRelativePath P s absolutePath
      in case writeFileSync fs absolutePath content of
           Inl e \<Rightarrow> Some (Inl e, fs, s)
         | Inr fs1 \<Rightarrow>
             if \<not> isSupported P absolutePath
             then Some (Inr (''Successfully wrote '' @ relPath
                             @ '' (unsupported file type - not tracked)''), fs1, s)
             else (case activateAndCache P now fs1 s absolutePath content of
                     None \<Rightarrow> None
                   | Some s3 \<Rightarrow> Some (Inr (''Successfully wrote '' @ relPath), fs1, s3)))"

text \<open>
  \<^verbatim>\<open>fileStatus\<close>. The first read of the active file is inside \<^verbatim>\<open>try\<close>; the second one,
  in the totals, is not.
\<close>

definition activeLine :: "platform \<Rightarrow> filesystem \<Rightarrow> ContextState \<Rightarrow> Status \<Rightarrow> string" where
  "activeLine P fs s status =
     (case st_activeFile status of
        None \<Rightarrow> ''Active: (none)''
      | Some active \<Rightarrow>
          if active = [] then ''Active: (none)''
          else (let relPath = getRelativePath P s active
                in case readFileSync fs active of
                     Inr content \<Rightarrow>
                       ''Active: '' @ relPath @ '' (full, '' @ formatSize (byteLength content) @ '')''
                   | Inl e \<Rightarrow> ''Active: '' @ relPath @ '' (file not found)''))"

text \<open>
  \<^verbatim>\<open>status.activeFile ? Buffer.byteLength(fs.readFileSync(status.activeFile, 'utf8'), 'utf8') : 0\<close>
  of the totals: the read is not guarded, so its failure is the failure of the tool.
\<close>

definition activeSizeOf :: "filesystem \<Rightarrow> Status \<Rightarrow> error + int" where
  "activeSizeOf fs status =
     (case st_activeFile status of
        None \<Rightarrow> Inr 0
      | Some active \<Rightarrow>
          if active = [] then Inr 0
          else (case readFileSync fs active of
                  Inl e \<Rightarrow> Inl e
                | Inr content \<Rightarrow> Inr (byteLength content)))"

definition entryLine :: "StatusEntry \<Rightarrow> string" where
  "entryLine e =
     (let savings = formatSize (st_savings e)
      in ''  '' @ padEnd 40 (st_relativePath e) @ '' '' @ padStart 8 (formatSize (st_summarySize e)) @ '' ''
         @ ''(was '' @ formatSize (st_fullSize e) @ '', saved '' @ savings @ '')'')"

definition cachedLines :: "Status \<Rightarrow> string list" where
  "cachedLines status =
     (if length (st_summaries status) > 0
      then [''Cached Summaries:''] @ map entryLine (st_summaries status) @ [[]]
      else [''Cached Summaries: (none)'', []])"

definition totalLines :: "platform \<Rightarrow> Status \<Rightarrow> int \<Rightarrow> string list" where
  "totalLines P status activeSize =
     (let totalContext = activeSize + totalSummarySize status;
          totalWithoutCompaction = activeSize + totalFullSize status;
          savingsPercent = (if totalWithoutCompaction > 0
                            then percentFixed0 P (totalSavings status) totalWithoutCompaction
                            else ''0'')
      in [''Total Context:        '' @ formatSize totalContext,
          ''Without Compaction:   '' @ formatSize totalWithoutCompaction,
          ''Savings:              '' @ formatSize (totalSavings status) @ '' ('' @ savingsPercent @ ''%)''])"

definition fileStatus :: "platform \<Rightarrow> filesystem \<Rightarrow> ContextState \<Rightarrow> error + string" where
  "fileStatus P fs s =
     (let status = getStatus s;
          lines = [''Context Status'', ''=============='', []]
                  @ [activeLine P fs s status] @ [[]] @ cachedLines status
      in if length (st_summaries status) > 0
         then (case activeSizeOf fs status of
                 Inl e \<Rightarrow> Inl e
               | Inr activeSize \<Rightarrow> Inr (strJoin [nl] (lines @ totalLines P status activeSize)))
         else Inr (strJoin [nl] lines))"

definition forgetFile :: "platform \<Rightarrow> ContextState \<Rightarrow> string \<Rightarrow> string \<times> ContextState" where
  "forgetFile P s filePath =
     (let absolutePath = absolutePathOf P filePath;
          relPath = getRelativePath P s absolutePath;
          (wasTracked, s1) = forget P s absolutePath
      in (if wasTracked then ''Removed '' @ relPath @ '' from tracking''
          else relPath @ '' was not being tracked'', s1))"

section \<open>A sample environment\<close>

text \<open>
  A concrete instance of the external collaborators, on which the definitions can be
  evaluated: POSIX-like paths under the working directory \<^verbatim>\<open>/work\<close>, the content itself
  in place of its digest, and a Rust extraction that rejects sources containing
  \<^verbatim>\<open>@@\<close> and otherwise reports one fixed model.
\<close>

definition sampleExtname :: "string \<Rightarrow> string" where
  "sampleExtname p =
     (let base = rev (takeWhile (\<lambda>c. c \<noteq> CHR ''/'') (rev p));
          ext = rev (takeWhile (\<lambda>c. c \<noteq> CHR ''.'') (rev base))
      in if CHR ''.'' \<in> set base \<and> length ext + 1 < length base then CHR ''.'' # ext else [])"

definition sampleModel :: FileSummary where
  "sampleModel =
     \<lparr>purpose = Some ''Demo module'',
      structs = [\<lparr>struct_name = ''Point'', struct_doc = Some ''A point'', struct_generics = [],
                  struct_fields = [\<lparr>field_name = ''x'', field_type = ''i32'', field_doc = None,
                                     field_isPublic = True\<rparr>],
                  struct_methods = [], struct_derives = [''Debug'', ''Clone'']\<rparr>],
      traits = [], enums = [],
      fns = [\<lparr>fn_name = ''run'', fn_doc = None, signature = ''pub fn run()'', isUnsafe = False,
              isAsync = False, fn_isPublic = True\<rparr>],
      typeAliases = [], constants = [], reexports = []\<rparr>"

definition samplePlatform :: platform where
  "samplePlatform =
     \<lparr>path_isAbsolute = (\<lambda>p. take 1 p = ''/''),
      path_resolve = (\<lambda>p. ''/work/'' @ p),
      path_normalize = (\<lambda>p. p),
      path_relative = (\<lambda>root p. if prefix (root @ ''/'') p then drop (length root + 1) p else p),
      path_extname = sampleExtname,
      sha256_hex = (\<lambda>content. content),
      rustExtract = (\<lambda>source. if strIncludes source ''@@'' then Inl ''syntax error'' else Inr sampleModel),
      parsePython = (\<lambda>source. ParseError ''no parser''),
      parseTypeScript = (\<lambda>source ext. ParseError ''no parser''),
      phpExtract = (\<lambda>source. Inl ''no parser''),
      parseCSharp = (\<lambda>source. ParseError ''no parser''),
      parseGDScript = (\<lambda>source. ParseError ''no parser''),
      percentFixed0 = (\<lambda>a b. showInt ((200 * a + b) div (2 * b)))\<rparr>"

definition sampleState :: "int \<Rightarrow> ContextState" where
  "sampleState n =
     newContextState \<lparr>maxTrackedFiles = n, maxDocLines = 5, projectRoot = ''/work''\<rparr>"

definition sampleDisk :: "(string \<times> string) list \<Rightarrow> filesystem" where
  "sampleDisk entries = \<lparr>files = map_of entries, readOnly = (\<lambda>p. False)\<rparr>"

text \<open>
  Two states of a cache configured with \<^verbatim>\<open>maxTrackedFiles = 1\<close>: \<open>stateA\<close> after
  \<^verbatim>\<open>setActiveFile('/work/a.rs')\<close> and \<^verbatim>\<open>setSummary('/work/a.rs', 'A', 'a')\<close>, and \<open>stateB\<close>
  after a further \<^verbatim>\<open>setSummary('/work/b.rs', 'B', 'b')\<close>.
\<close>

definition sampleCached :: "string \<Rightarrow> string \<Rightarrow> string \<Rightarrow> nat \<Rightarrow> string \<times> CachedSummary" where
  "sampleCached rel summaryText content t =
     (''/work/'' @ rel,
      \<lparr>summary = summaryText, contentHash = content, fullSize = int (length content),
       summarySize = int (length summaryText), lastAccessed = t, relativePath = rel\<rparr>)"

definition stateA :: ContextState where
  "stateA =
     \<lparr>activeFile = Some ''/work/a.rs'',
      summaries = [sampleCached ''a.rs'' ''A'' ''a'' 0],
      accessOrder = [''/work/a.rs''],
      config = \<lparr>maxTrackedFiles = 1, maxDocLines = 5, projectRoot = ''/work''\<rparr>\<rparr>"

definition stateB :: ContextState where
  "stateB = stateA\<lparr>accessOrder := []\<rparr>"

text \<open>
  A cache with the default limit that tracks \<^verbatim>\<open>/work/a.rs\<close>, summarized from the content
  \<^verbatim>\<open>old\<close>.
\<close>

definition trackedA :: ContextState where
  "trackedA = (sampleState 50)
     \<lparr>summaries := [sampleCached ''a.rs'' ''A'' ''old'' 0], accessOrder := [''/work/a.rs'']\<rparr>"

text \<open>
  The state after \<^verbatim>\<open>read_file /work/b.rs\<close> and then \<^verbatim>\<open>read_file /work/a.rs\<close>, both files on
  disk: \<^verbatim>\<open>/work/a.rs\<close> is active and \<^verbatim>\<open>/work/b.rs\<close> has been summarized on the switch.
\<close>

definition bothOnDisk :: filesystem where
  "bothOnDisk = sampleDisk [(''/work/a.rs'', ''pub fn a() {}''), (''/work/b.rs'', ''pub fn b() {}'')]"

definition activeB :: ContextState where
  "activeB = (sampleState 50)\<lparr>activeFile := Some ''/work/b.rs'', accessOrder := [''/work/b.rs'']\<rparr>"

definition activeA_cachedB :: ContextState where
  "activeA_cachedB = (sampleState 50)
     \<lparr>activeFile := Some ''/work/a.rs'',
      summaries := [sampleCached ''b.rs'' (formatSummary sampleModel) ''pub fn b() {}'' 1],
      accessOrder := [''/work/b.rs'', ''/work/a.rs'']\<rparr>"

text \<open>
  The positions at which a string occurs verbatim in a text, to compare the checks of
  \<^verbatim>\<open>editFile\<close> with.
\<close>

definition occurrencePositions :: "string \<Rightarrow> string \<Rightarrow> nat list" where
  "occurrencePositions content pat =
     filter (\<lambda>i. prefix pat (drop i content)) [0 ..< Suc (length content)]"

text \<open>
  What Node documents of \<^verbatim>\<open>path.resolve\<close>: its result is an absolute, normalized path.
\<close>

definition resolveLaws :: "platform \<Rightarrow> bool" where
  "resolveLaws P \<longleftrightarrow>
     (\<forall>p. path_isAbsolute P (path_resolve P p) \<and> path_normalize P (path_resolve P p) = path_resolve P p)"

section \<open>Invariants of the cache\<close>

text \<open>
  A condition on the cache under which the eviction loop terminates: the keys of
  \<open>summaries\<close> are unique, none is the empty string, and every key other than the active
  path is in the recency list. Storing a summary and an iteration of the loop preserve
  it; a change of the active file need not, once the loop has popped the active path
  and kept its entry.
\<close>

definition cacheInv :: "ContextState \<Rightarrow> bool" where
  "cacheInv s \<longleftrightarrow>
     distinct (map fst (summaries s)) \<and> map_of (summaries s) [] = None
     \<and> (\<forall>q. map_of (summaries s) q \<noteq> None \<longrightarrow> Some q \<noteq> activeFile s \<longrightarrow> q \<in> set (accessOrder s))"

text \<open>
  The limit leaves room for the entry of the active file: it is at least one, or it is
  zero and the active file has no entry.
\<close>

definition roomForActive :: "ContextState \<Rightarrow> bool" where
  "roomForActive s \<longleftrightarrow>
     1 \<le> maxTrackedFiles (config s)
     \<or> (0 \<le> maxTrackedFiles (config s) \<and> (\<forall>a. activeFile s = Some a \<longrightarrow> map_of (summaries s) a = None))"

text \<open>What holds of the state \<open>s'\<close> in which the eviction loop, started in \<open>s\<close>, exits.\<close>

definition evictPost :: "ContextState \<Rightarrow> ContextState \<Rightarrow> bool" where
  "evictPost s s' \<longleftrightarrow>
     \<not> overLimit s' \<and> activeFile s' = activeFile s \<and> config s' = config s
     \<and> (\<forall>a. activeFile s = Some a \<longrightarrow> map_of (summaries s') a = map_of (summaries s) a)
     \<and> (\<forall>q. map_of (summaries s') q = None \<or> map_of (summaries s') q = map_of (summaries s) q)"

section \<open>The eviction loop\<close>

lemmas state_defs = setSummary_def storeSummary_def updateAccessOrder_def setActiveFile_def
  normalizePath_def getRelativePath_def hashContent_def byteLength_def overLimit_def evictStep_def
  sampleState_def newContextState_def samplePlatform_def sampleCached_def stateA_def stateB_def
  Let_def

lemma evictStep_frame:
  "activeFile (evictStep s) = activeFile s" "config (evictStep s) = config s"
  by (auto simp: evictStep_def Let_def split: list.splits)

lemma evictStep_lookup:
  "map_of (summaries (evictStep s)) q = None \<or> map_of (summaries (evictStep s)) q = map_of (summaries s) q"
  by (auto simp: evictStep_def Let_def AList.delete_conv' split: list.splits)

lemma evictStep_active_kept:
  "activeFile s = Some a \<Longrightarrow> map_of (summaries (evictStep s)) a = map_of (summaries s) a"
  by (auto simp: evictStep_def Let_def AList.delete_conv' split: list.splits)

lemma evictStep_length:
  "length (summaries (evictStep s)) \<le> length (summaries s)"
  by (auto simp: evictStep_def Let_def AList.delete_eq split: list.splits)

lemma evictIfNeeded_done: "\<not> overLimit s \<Longrightarrow> evictIfNeeded s = Some s"
  by (subst evictIfNeeded.simps) simp

lemma evictIfNeeded_unfold: "overLimit s \<Longrightarrow> evictIfNeeded s = evictIfNeeded (evictStep s)"
  by (subst evictIfNeeded.simps) simp

text \<open>Over the limit with an empty recency list, the loop makes no progress.\<close>

lemma evictIfNeeded_not_stuck:
  assumes "evictIfNeeded s = Some s'"
  shows "\<not> (overLimit s \<and> accessOrder s = [])"
proof (rule evictIfNeeded.raw_induct[where P = "\<lambda>s s'. \<not> (overLimit s \<and> accessOrder s = [])", OF _ assms])
  fix f s s'
  assume IH: "\<And>x y. f x = Some y \<Longrightarrow> \<not> (overLimit x \<and> accessOrder x = [])"
    and eq: "(if overLimit s then f (evictStep s) else Some s) = Some s'"
  show "\<not> (overLimit s \<and> accessOrder s = [])"
  proof
    assume st: "overLimit s \<and> accessOrder s = []"
    then have "evictStep s = s" by (simp add: evictStep_def)
    with st eq have "f s = Some s'" by simp
    from IH[OF this] st show False by simp
  qed
qed

lemma evictIfNeeded_stuck:
  "overLimit s \<Longrightarrow> accessOrder s = [] \<Longrightarrow> evictIfNeeded s = None"
  using evictIfNeeded_not_stuck[of s] by (cases "evictIfNeeded s") auto

lemma evictPost_refl: "\<not> overLimit s \<Longrightarrow> evictPost s s"
  by (simp add: evictPost_def)

lemma evictPost_step:
  assumes "evictPost (evictStep s) s'"
  shows "evictPost s s'"
proof -
  have a: "\<not> overLimit s'" "activeFile s' = activeFile s" "config s' = config s"
    using assms by (simp_all add: evictPost_def evictStep_frame)
  have b: "map_of (summaries s') q = map_of (summaries s) q" if "activeFile s = Some q" for q
    using assms that evictStep_active_kept[of s q] by (simp add: evictPost_def evictStep_frame)
  have c: "map_of (summaries s') q = None \<or> map_of (summaries s') q = map_of (summaries s) q" for q
    using assms evictStep_lookup[of s q] unfolding evictPost_def by metis
  show ?thesis
    unfolding evictPost_def using a b c by blast
qed

lemma evictIfNeeded_result:
  assumes "evictIfNeeded s = Some s'"
  shows "evictPost s s'"
proof (rule evictIfNeeded.raw_induct[where P = evictPost, OF _ assms])
  fix f s s'
  assume IH: "\<And>x y. f x = Some y \<Longrightarrow> evictPost x y"
    and eq: "(if overLimit s then f (evictStep s) else Some s) = Some s'"
  show "evictPost s s'"
  proof (cases "overLimit s")
    case False
    with eq show ?thesis by (auto simp: evictPost_refl)
  next
    case True
    with eq have "f (evictStep s) = Some s'" by simp
    from IH[OF this] show ?thesis by (rule evictPost_step)
  qed
qed

lemma storeSummary_fields:
  "activeFile (storeSummary P now s fp sm fc) = activeFile s"
  "config (storeSummary P now s fp sm fc) = config s"
  "accessOrder (storeSummary P now s fp sm fc) =
     filter (\<lambda>p. p \<noteq> normalizePath P fp) (accessOrder s) @ [normalizePath P fp]"
  "distinct (map fst (summaries s)) \<Longrightarrow> distinct (map fst (summaries (storeSummary P now s fp sm fc)))"
  "q \<noteq> normalizePath P fp \<Longrightarrow> map_of (summaries (storeSummary P now s fp sm fc)) q = map_of (summaries s) q"
  "map_of (summaries (storeSummary P now s fp sm fc)) (normalizePath P fp) \<noteq> None"
  by (simp_all add: storeSummary_def updateAccessOrder_def Let_def AList.update_conv' AList.distinct_update)

lemma setSummary_frame:
  assumes "setSummary P now s fp sm fc = Some s'"
  shows "activeFile s' = activeFile s" "config s' = config s"
  using evictIfNeeded_result[OF assms[unfolded setSummary_def]]
  by (simp_all add: evictPost_def storeSummary_fields)

subsection \<open>Termination under the invariants\<close>

lemma cacheInv_evictStep:
  assumes "cacheInv s"
  shows "cacheInv (evictStep s)"
proof (cases "accessOrder s")
  case Nil
  with assms show ?thesis by (simp add: evictStep_def)
next
  case (Cons oldest rest)
  have ne: "map_of (summaries s) [] = None"
    using assms unfolding cacheInv_def by simp
  have ord: "q \<in> set (accessOrder s)" if "map_of (summaries s) q \<noteq> None" "Some q \<noteq> activeFile s" for q
    using that assms unfolding cacheInv_def by metis
  have d: "distinct (map fst (summaries s))"
    using assms unfolding cacheInv_def by simp
  show ?thesis
  proof (cases "oldest \<noteq> [] \<and> Some oldest \<noteq> activeFile s")
    case True
    then have step: "evictStep s = s\<lparr>accessOrder := rest, summaries := AList.delete oldest (summaries s)\<rparr>"
      by (simp add: evictStep_def Cons)
    have "q \<in> set rest" if "map_of (summaries s) q \<noteq> None" "q \<noteq> oldest" "Some q \<noteq> activeFile s" for q
      using that ord[of q] Cons by auto
    with d ne show ?thesis
      unfolding cacheInv_def step by (simp add: AList.delete_conv' AList.distinct_delete)
  next
    case False
    then have step: "evictStep s = s\<lparr>accessOrder := rest\<rparr>"
      by (auto simp add: evictStep_def Cons)
    have "q \<in> set rest" if "map_of (summaries s) q \<noteq> None" "Some q \<noteq> activeFile s" for q
      using that ord[of q] ne Cons False by auto
    with d ne show ?thesis
      unfolding cacheInv_def step by simp
  qed
qed

lemma roomForActive_evictStep: "roomForActive s \<Longrightarrow> roomForActive (evictStep s)"
  unfolding roomForActive_def evictStep_frame
  using evictStep_lookup[of s] by metis

lemma length_evictStep:
  "accessOrder s \<noteq> [] \<Longrightarrow> length (accessOrder (evictStep s)) < length (accessOrder s)"
  by (auto simp: evictStep_def Let_def split: list.splits)

lemma exhausted_not_overLimit:
  assumes "cacheInv s" "roomForActive s" "accessOrder s = []"
  shows "\<not> overLimit s"
proof -
  have d: "distinct (map fst (summaries s))"
    using assms(1) unfolding cacheInv_def by simp
  have ord: "q \<in> set (accessOrder s)" if "map_of (summaries s) q \<noteq> None" "Some q \<noteq> activeFile s" for q
    using that assms(1) unfolding cacheInv_def by metis
  have sub: "dom (map_of (summaries s)) \<subseteq> {a. activeFile s = Some a}"
  proof
    fix q
    assume "q \<in> dom (map_of (summaries s))"
    then have "map_of (summaries s) q \<noteq> None" by auto
    with ord[of q] assms(3) have "Some q = activeFile s" by auto
    then have "activeFile s = Some q" by (rule sym)
    then show "q \<in> {a. activeFile s = Some a}" by simp
  qed
  have "card (set (map fst (summaries s))) = length (map fst (summaries s))"
    using d by (rule distinct_card)
  then have len: "length (summaries s) = card (dom (map_of (summaries s)))"
    by (simp add: dom_map_of_conv_image_fst)
  have fin: "finite {a. activeFile s = Some a}"
    by (cases "activeFile s") auto
  have "card {a. activeFile s = Some a} \<le> 1"
    by (cases "activeFile s") auto
  moreover have "card (dom (map_of (summaries s))) \<le> card {a. activeFile s = Some a}"
    by (rule card_mono[OF fin sub])
  ultimately have le1: "length (summaries s) \<le> 1" using len by simp
  show ?thesis
  proof (cases "1 \<le> maxTrackedFiles (config s)")
    case True
    with le1 show ?thesis by (simp add: overLimit_def)
  next
    case False
    with assms(2) have nz: "0 \<le> maxTrackedFiles (config s)"
      and noentry: "\<And>a. activeFile s = Some a \<Longrightarrow> map_of (summaries s) a = None"
      by (auto simp: roomForActive_def)
    have "dom (map_of (summaries s)) = {}"
    proof (rule ccontr)
      assume "dom (map_of (summaries s)) \<noteq> {}"
      then obtain q where q: "q \<in> dom (map_of (summaries s))"
        by (meson ex_in_conv)
      from subsetD[OF sub q] have "activeFile s = Some q" by simp
      from noentry[OF this] q show False by (simp add: domIff)
    qed
    with len have "summaries s = []" by simp
    with nz show ?thesis by (simp add: overLimit_def)
  qed
qed

lemma evictIfNeeded_terminates:
  "cacheInv s \<Longrightarrow> roomForActive s \<Longrightarrow> \<exists>s'. evictIfNeeded s = Some s'"
proof (induction "length (accessOrder s)" arbitrary: s rule: less_induct)
  case less
  show ?case
  proof (cases "overLimit s")
    case False
    then show ?thesis by (simp add: evictIfNeeded_done)
  next
    case True
    with less.prems have ne: "accessOrder s \<noteq> []"
      using exhausted_not_overLimit by blast
    have "\<exists>s'. evictIfNeeded (evictStep s) = Some s'"
      using less.hyps[OF length_evictStep[OF ne]] less.prems
      by (simp add: cacheInv_evictStep roomForActive_evictStep)
    with True show ?thesis by (simp add: evictIfNeeded_unfold)
  qed
qed

lemma cacheInv_storeSummary:
  assumes "cacheInv s" "normalizePath P fp \<noteq> []"
  shows "cacheInv (storeSummary P now s fp sm fc)"
proof -
  let ?s' = "storeSummary P now s fp sm fc"
  have ne: "map_of (summaries s) [] = None"
    using assms unfolding cacheInv_def by simp
  have ord: "q \<in> set (accessOrder s)" if "map_of (summaries s) q \<noteq> None" "Some q \<noteq> activeFile s" for q
    using that assms unfolding cacheInv_def by metis
  have d: "distinct (map fst (summaries s))"
    using assms unfolding cacheInv_def by simp
  have 1: "distinct (map fst (summaries ?s'))"
    using d by (rule storeSummary_fields(4))
  have 2: "map_of (summaries ?s') [] = None"
    using ne assms(2) by (simp add: storeSummary_fields(5))
  have 3: "q \<in> set (accessOrder ?s')" if "map_of (summaries ?s') q \<noteq> None" "Some q \<noteq> activeFile ?s'" for q
  proof (cases "q = normalizePath P fp")
    case True
    then show ?thesis by (simp add: storeSummary_fields(3))
  next
    case False
    with that ord[of q] show ?thesis by (simp add: storeSummary_fields)
  qed
  show ?thesis
    unfolding cacheInv_def using 1 2 3 by blast
qed

text \<open>
  Under the invariants, with a limit of at least one, \<^verbatim>\<open>setSummary\<close> returns.
\<close>

lemma setSummary_terminates:
  assumes "cacheInv s" "normalizePath P fp \<noteq> []" "1 \<le> maxTrackedFiles (config s)"
  shows "\<exists>s'. setSummary P now s fp sm fc = Some s'"
  unfolding setSummary_def
proof (rule evictIfNeeded_terminates)
  show "cacheInv (storeSummary P now s fp sm fc)"
    using assms(1,2) by (rule cacheInv_storeSummary)
  show "roomForActive (storeSummary P now s fp sm fc)"
    using assms(3) by (simp add: roomForActive_def storeSummary_fields)
qed

lemma cacheInv_evictIfNeeded:
  assumes "evictIfNeeded s = Some s'"
  shows "cacheInv s \<longrightarrow> cacheInv s'"
proof (rule evictIfNeeded.raw_induct[where P = "\<lambda>s s'. cacheInv s \<longrightarrow> cacheInv s'", OF _ assms])
  fix f s s'
  assume IH: "\<And>x y. f x = Some y \<Longrightarrow> cacheInv x \<longrightarrow> cacheInv y"
    and eq: "(if overLimit s then f (evictStep s) else Some s) = Some s'"
  show "cacheInv s \<longrightarrow> cacheInv s'"
  proof (cases "overLimit s")
    case False
    with eq show ?thesis by auto
  next
    case True
    with eq have "f (evictStep s) = Some s'" by simp
    from IH[OF this] show ?thesis by (simp add: cacheInv_evictStep)
  qed
qed

subsection \<open>Claim C10\<close>

text \<open>
  C10 says that every call of \<^verbatim>\<open>setSummary\<close> terminates, for every reachable state and
  every configured limit. The code does not: with \<^verbatim>\<open>maxTrackedFiles = 1\<close>, the calls
  \<^verbatim>\<open>setActiveFile(a)\<close>, \<^verbatim>\<open>setSummary(a)\<close>, \<^verbatim>\<open>setSummary(b)\<close> return (the second eviction pops
  the active path \<open>a\<close> off the recency list, keeps its entry and evicts \<open>b\<close>), and after
  \<^verbatim>\<open>setActiveFile(c)\<close> the call \<^verbatim>\<open>setSummary(c)\<close> never returns: two entries are cached, the
  only path in the recency list is the active one, and once it is popped the loop spins
  on an empty list.
\<close>

theorem setSummary_diverges_after_active_popped:
  "setSummary samplePlatform 0 (snd (setActiveFile samplePlatform (sampleState 1) ''/work/a.rs''))
       ''/work/a.rs'' ''A'' ''a'' = Some stateA
   \<and> setSummary samplePlatform 0 stateA ''/work/b.rs'' ''B'' ''b'' = Some stateB
   \<and> setSummary samplePlatform 0 (snd (setActiveFile samplePlatform stateB ''/work/c.rs''))
       ''/work/c.rs'' ''C'' ''c'' = None"
proof (intro conjI)
  show "setSummary samplePlatform 0 (snd (setActiveFile samplePlatform (sampleState 1) ''/work/a.rs''))
       ''/work/a.rs'' ''A'' ''a'' = Some stateA"
    by (simp add: state_defs evictIfNeeded.simps)
  show "setSummary samplePlatform 0 stateA ''/work/b.rs'' ''B'' ''b'' = Some stateB"
    by (simp add: state_defs evictIfNeeded.simps)
  let ?s = "storeSummary samplePlatform 0 (snd (setActiveFile samplePlatform stateB ''/work/c.rs''))
       ''/work/c.rs'' ''C'' ''c''"
  have over: "overLimit ?s" by (simp add: state_defs)
  have over': "overLimit (evictStep ?s)" by (simp add: state_defs)
  have empty: "accessOrder (evictStep ?s) = []" by (simp add: state_defs)
  have "evictIfNeeded ?s = evictIfNeeded (evictStep ?s)"
    using over by (rule evictIfNeeded_unfold)
  also have "\<dots> = None"
    using over' empty by (rule evictIfNeeded_stuck)
  finally show "setSummary samplePlatform 0 (snd (setActiveFile samplePlatform stateB ''/work/c.rs''))
       ''/work/c.rs'' ''C'' ''c'' = None"
    by (simp add: setSummary_def)
qed

text \<open>
  The same with \<^verbatim>\<open>maxTrackedFiles = 0\<close>, in two calls: the summary of the active file is
  stored, the active path is popped and kept, and the loop spins.
\<close>

lemma setSummary_diverges_limit_zero:
  "setSummary samplePlatform 0 (snd (setActiveFile samplePlatform (sampleState 0) ''/work/a.rs''))
       ''/work/a.rs'' ''A'' ''a'' = None"
proof -
  let ?s = "storeSummary samplePlatform 0 (snd (setActiveFile samplePlatform (sampleState 0) ''/work/a.rs''))
       ''/work/a.rs'' ''A'' ''a''"
  have over: "overLimit ?s" by (simp add: state_defs)
  have over': "overLimit (evictStep ?s)" by (simp add: state_defs)
  have empty: "accessOrder (evictStep ?s) = []" by (simp add: state_defs)
  have "evictIfNeeded ?s = evictIfNeeded (evictStep ?s)"
    using over by (rule evictIfNeeded_unfold)
  also have "\<dots> = None"
    using over' empty by (rule evictIfNeeded_stuck)
  finally show ?thesis
    by (simp add: setSummary_def)
qed

text \<open>
  In general: storing the summary of the active file never returns when the recency list
  holds no other path and the cache is over the limit once the entry is stored. With a
  limit of zero this is the case for the first file that \<^verbatim>\<open>editFile\<close> or \<^verbatim>\<open>writeFile\<close>
  activates and caches.
\<close>

lemma setSummary_of_active_diverges:
  assumes "activeFile s = Some (normalizePath P filePath)"
    and "set (accessOrder s) \<subseteq> {normalizePath P filePath}"
    and "overLimit (storeSummary P now s filePath summaryText fullContent)"
  shows "setSummary P now s filePath summaryText fullContent = None"
proof -
  let ?np = "normalizePath P filePath"
  let ?st = "storeSummary P now s filePath summaryText fullContent"
  have "filter (\<lambda>p. p \<noteq> ?np) (accessOrder s) = []"
    using assms(2) by (auto simp: filter_empty_conv)
  then have order: "accessOrder ?st = [?np]"
    by (simp add: storeSummary_fields)
  have step: "evictStep ?st = ?st\<lparr>accessOrder := []\<rparr>"
    using order assms(1) by (simp add: evictStep_def storeSummary_fields)
  have over': "overLimit (evictStep ?st)"
    using assms(3) by (simp add: step overLimit_def)
  have empty: "accessOrder (evictStep ?st) = []"
    by (simp add: step)
  have "evictIfNeeded ?st = evictIfNeeded (evictStep ?st)"
    using assms(3) by (rule evictIfNeeded_unfold)
  also have "\<dots> = None"
    using over' empty by (rule evictIfNeeded_stuck)
  finally show ?thesis
    by (simp add: setSummary_def)
qed

lemma setSummary_of_active_diverges_limit_zero:
  assumes "maxTrackedFiles (config s) = 0"
    and "activeFile s = Some (normalizePath P filePath)"
    and "set (accessOrder s) \<subseteq> {normalizePath P filePath}"
  shows "setSummary P now s filePath summaryText fullContent = None"
proof -
  let ?st = "storeSummary P now s filePath summaryText fullContent"
  have "map_of (summaries ?st) (normalizePath P filePath) \<noteq> None"
    by (rule storeSummary_fields)
  then have "summaries ?st \<noteq> []"
    by auto
  then have "overLimit ?st"
    using assms(1) by (simp add: overLimit_def storeSummary_fields)
  with assms(2,3) show ?thesis
    by (rule setSummary_of_active_diverges)
qed

subsection \<open>Claim C1\<close>

text \<open>
  C1: eviction never removes the summary entry of the active file. On a cache that
  satisfies the invariants, with a limit of at least one, \<^verbatim>\<open>setSummary\<close> returns; and
  whenever a call of \<^verbatim>\<open>setSummary\<close> returns, from any state and with any limit, the
  active pointer is what it was, the entry of the active path is the one the call stored
  or found, every path whose entry the loop deleted is not the active path, and at most
  \<^verbatim>\<open>maxTrackedFiles\<close> entries belong to paths other than the active one.
\<close>

theorem setSummary_eviction_spares_active:
  "(cacheInv s \<and> normalizePath P filePath \<noteq> [] \<and> 1 \<le> maxTrackedFiles (config s) \<longrightarrow>
      (\<exists>s'. setSummary P now s filePath summaryText fullContent = Some s'))
   \<and> (\<forall>s'. setSummary P now s filePath summaryText fullContent = Some s' \<longrightarrow>
        activeFile s' = activeFile s
        \<and> (\<forall>a. activeFile s = Some a \<longrightarrow>
               map_of (summaries s') a
                 = map_of (summaries (storeSummary P now s filePath summaryText fullContent)) a)
        \<and> (\<forall>q. map_of (summaries (storeSummary P now s filePath summaryText fullContent)) q \<noteq> None
               \<longrightarrow> map_of (summaries s') q = None \<longrightarrow> Some q \<noteq> activeFile s)
        \<and> int (length (filter (\<lambda>(q, c). Some q \<noteq> activeFile s') (summaries s')))
             \<le> maxTrackedFiles (config s))"
proof (intro conjI allI impI)
  assume "cacheInv s \<and> normalizePath P filePath \<noteq> [] \<and> 1 \<le> maxTrackedFiles (config s)"
  then show "\<exists>s'. setSummary P now s filePath summaryText fullContent = Some s'"
    by (simp add: setSummary_terminates)
next
  fix s'
  assume run: "setSummary P now s filePath summaryText fullContent = Some s'"
  let ?st = "storeSummary P now s filePath summaryText fullContent"
  have post: "evictPost ?st s'"
    using run unfolding setSummary_def by (rule evictIfNeeded_result)
  show 1: "activeFile s' = activeFile s"
    using post by (simp add: evictPost_def storeSummary_fields)
  have 2: "map_of (summaries s') a = map_of (summaries ?st) a" if "activeFile s = Some a" for a
    using post that by (simp add: evictPost_def storeSummary_fields)
  {
    fix a
    assume "activeFile s = Some a"
    then show "map_of (summaries s') a = map_of (summaries ?st) a"
      by (rule 2)
  }
  {
    fix q
    assume "map_of (summaries ?st) q \<noteq> None" "map_of (summaries s') q = None"
    then show "Some q \<noteq> activeFile s"
      using 2[of q] by auto
  }
  have "length (filter (\<lambda>(q, c). Some q \<noteq> activeFile s') (summaries s')) \<le> length (summaries s')"
    by (rule length_filter_le)
  moreover have "\<not> overLimit s'" "config s' = config s"
    using post by (simp_all add: evictPost_def storeSummary_fields)
  then have "int (length (summaries s')) \<le> maxTrackedFiles (config s)"
    by (simp add: overLimit_def)
  ultimately show "int (length (filter (\<lambda>(q, c). Some q \<noteq> activeFile s') (summaries s')))
      \<le> maxTrackedFiles (config s)"
    by linarith
qed

text \<open>
  With \<^verbatim>\<open>/work/a.rs\<close> active and cached under a limit of one, storing the summary of
  \<^verbatim>\<open>/work/b.rs\<close> pops the active path, keeps its entry and evicts \<^verbatim>\<open>/work/b.rs\<close>.
\<close>

theorem setSummary_eviction_spares_active_witness:
  "cacheInv stateA \<and> normalizePath samplePlatform ''/work/b.rs'' \<noteq> []
   \<and> 1 \<le> maxTrackedFiles (config stateA)
   \<and> setSummary samplePlatform 0 stateA ''/work/b.rs'' ''B'' ''b'' = Some stateB
   \<and> activeFile stateB = Some ''/work/a.rs''
   \<and> map_of (summaries stateB) ''/work/a.rs'' = Some (snd (sampleCached ''a.rs'' ''A'' ''a'' 0))
   \<and> map_of (summaries stateB) ''/work/b.rs'' = None
   \<and> int (length (filter (\<lambda>(q, c). Some q \<noteq> activeFile stateB) (summaries stateB))) \<le> 1"
proof -
  have inv: "cacheInv stateA \<and> normalizePath samplePlatform ''/work/b.rs'' \<noteq> []
      \<and> 1 \<le> maxTrackedFiles (config stateA)"
    by (simp add: cacheInv_def state_defs)
  have run: "setSummary samplePlatform 0 stateA ''/work/b.rs'' ''B'' ''b'' = Some stateB"
    by (simp add: state_defs evictIfNeeded.simps)
  from setSummary_eviction_spares_active[of stateA samplePlatform "''/work/b.rs''" 0 "''B''" "''b''"]
    inv run
  show ?thesis
    by (simp add: state_defs)
qed

section \<open>The tools\<close>

lemmas tool_defs = absolutePathOf_def readFileSync_def writeFileSync_def sampleDisk_def
  isSupported_def SUPPORTED_EXTENSIONS_def sampleExtname_def toLowerCase_def lowerChar_def
  isActive_def getSummary_def getActiveFile_def

subsection \<open>Claim C3\<close>

lemma peekGenerate_keeps_active:
  assumes "peekGenerate P now s absolutePath relPath content = Some (r, s')"
  shows "activeFile s' = activeFile s"
proof (cases "parseFile P absolutePath content")
  case None
  with assms show ?thesis by (simp add: peekGenerate_def)
next
  case (Some outcome)
  show ?thesis
  proof (cases outcome)
    case (ParseError message)
    with Some assms show ?thesis by (simp add: peekGenerate_def)
  next
    case (ParseResult sm formatted)
    with Some assms obtain s1 where
      s1: "setSummary P now s absolutePath formatted content = Some s1" and "s' = s1"
      by (auto simp: peekGenerate_def split: option.splits)
    with setSummary_frame(1)[OF s1] show ?thesis by simp
  qed
qed

text \<open>
  On a cache that satisfies the invariants, with a limit of at least one, \<^verbatim>\<open>peekFile\<close>
  returns.
\<close>

lemma peekFile_returns:
  assumes "cacheInv s" "1 \<le> maxTrackedFiles (config s)"
    and "normalizePath P (absolutePathOf P filePath) \<noteq> []"
  shows "\<exists>r s'. peekFile P now fs s filePath = Some (r, s')"
proof -
  let ?abs = "absolutePathOf P filePath"
  let ?rel = "getRelativePath P s ?abs"
  have gen: "\<exists>r s'. peekGenerate P now s ?abs ?rel content = Some (r, s')" for content
  proof (cases "parseFile P ?abs content")
    case None
    then show ?thesis by (simp add: peekGenerate_def)
  next
    case (Some outcome)
    show ?thesis
    proof (cases outcome)
      case (ParseError message)
      with Some show ?thesis by (simp add: peekGenerate_def)
    next
      case (ParseResult sm formatted)
      from setSummary_terminates[OF assms(1,3,2), of now formatted content]
      obtain s1 where "setSummary P now s ?abs formatted content = Some s1" by blast
      with Some ParseResult show ?thesis by (simp add: peekGenerate_def)
    qed
  qed
  show ?thesis
  proof (cases "readFileSync fs ?abs")
    case (Inl e)
    then show ?thesis by (simp add: peekFile_def)
  next
    case (Inr content)
    with gen[of content] show ?thesis
      by (auto simp: peekFile_def Let_def split: option.splits)
  qed
qed

lemma peekFile_frame:
  assumes "peekFile P now fs s filePath = Some (r, s')"
  shows "getActiveFile s' = getActiveFile s"
proof -
  let ?abs = "absolutePathOf P filePath"
  let ?rel = "getRelativePath P s ?abs"
  show ?thesis
  proof (cases "readFileSync fs ?abs")
    case (Inl e)
    with assms show ?thesis by (simp add: peekFile_def)
  next
    case (Inr content)
    consider (direct) "s' = s"
      | (generated) "peekGenerate P now s ?abs ?rel content = Some (r, s')"
      using assms Inr
      by (auto simp: peekFile_def Let_def split: if_splits option.splits)
    then show ?thesis
    proof cases
      case direct
      then show ?thesis by simp
    next
      case generated
      then show ?thesis
        unfolding getActiveFile_def by (rule peekGenerate_keeps_active)
    qed
  qed
qed

text \<open>
  C3: \<^verbatim>\<open>peekFile\<close> never changes the active-file pointer. Whatever the path and the state
  (the path active, cached, stale, unsupported, unreadable or failing to parse), and
  whether the call returns text or throws, \<^verbatim>\<open>getActiveFile()\<close> after the call is what it
  was before; and on a cache that satisfies the invariants, with a limit of at least
  one, the call does return.
\<close>

theorem peekFile_keeps_active_file:
  "(\<forall>r s'. peekFile P now fs s filePath = Some (r, s') \<longrightarrow> getActiveFile s' = getActiveFile s)
   \<and> (cacheInv s \<and> 1 \<le> maxTrackedFiles (config s)
        \<and> normalizePath P (absolutePathOf P filePath) \<noteq> [] \<longrightarrow>
      (\<exists>r s'. peekFile P now fs s filePath = Some (r, s')))"
  using peekFile_frame[of P now fs s filePath] peekFile_returns[of s P filePath now fs]
  by blast

text \<open>
  With \<^verbatim>\<open>/work/a.rs\<close> active, peeking at \<^verbatim>\<open>b.rs\<close> returns its summary and leaves
  \<^verbatim>\<open>/work/a.rs\<close> active.
\<close>

theorem peekFile_keeps_active_file_witness:
  "cacheInv stateA \<and> 1 \<le> maxTrackedFiles (config stateA)
   \<and> normalizePath samplePlatform (absolutePathOf samplePlatform ''b.rs'') \<noteq> []
   \<and> peekFile samplePlatform 0 (sampleDisk [(''/work/b.rs'', ''pub fn run() {}'')]) stateA ''b.rs''
       = Some (Inr (formatFileHeader ''b.rs'' True @ [nl, nl] @ formatSummary sampleModel), stateB)
   \<and> getActiveFile stateB = getActiveFile stateA
   \<and> getActiveFile stateA = Some ''/work/a.rs''"
proof -
  have inv: "cacheInv stateA \<and> 1 \<le> maxTrackedFiles (config stateA)
      \<and> normalizePath samplePlatform (absolutePathOf samplePlatform ''b.rs'') \<noteq> []"
    by (simp add: cacheInv_def tool_defs state_defs)
  have run: "peekFile samplePlatform 0 (sampleDisk [(''/work/b.rs'', ''pub fn run() {}'')]) stateA ''b.rs''
     = Some (Inr (formatFileHeader ''b.rs'' True @ [nl, nl] @ formatSummary sampleModel), stateB)"
    by (simp add: peekFile_def peekGenerate_def parseFile_def parseRust_def rustSupports_def
        strIncludes_def tool_defs state_defs evictIfNeeded.simps)
  from peekFile_keeps_active_file[of samplePlatform 0
      "sampleDisk [(''/work/b.rs'', ''pub fn run() {}'')]" stateA "''b.rs''"] run
  have "getActiveFile stateB = getActiveFile stateA"
    by blast
  with inv run show ?thesis
    by (simp add: getActiveFile_def stateA_def)
qed

subsection \<open>Claim C4\<close>

lemma map_of_update_length:
  "map_of al k \<noteq> None \<Longrightarrow> length (AList.update k v al) = length al"
  by (induct al) auto

text \<open>
  C4, the staleness round trip. A path is tracked with the summary that \<^verbatim>\<open>setSummary\<close>
  stored for the content \<open>content\<close>. When the bytes on disk become \<open>content'\<close>, of another
  digest, \<^verbatim>\<open>isStale\<close> is true; the next \<^verbatim>\<open>setSummary\<close> for \<open>content'\<close> returns, and
  then \<^verbatim>\<open>isStale\<close> is false while the disk still holds \<open>content'\<close>. The digest is the
  external SHA-256, a parameter here: changed bytes are bytes of another digest.
\<close>

theorem staleness_round_trip:
  assumes stored: "setSummary P t0 s0 filePath summaryText content = Some s1"
    and tracked: "getSummary P s1 filePath \<noteq> None"
    and disk: "readFileSync fs filePath = Inr content'"
    and changed: "hashContent P content' \<noteq> hashContent P content"
  shows "isStale P fs s1 filePath
    \<and> (\<exists>s2. setSummary P t1 s1 filePath summaryText' content' = Some s2
              \<and> \<not> isStale P fs s2 filePath)"
proof -
  let ?np = "normalizePath P filePath"
  let ?st0 = "storeSummary P t0 s0 filePath summaryText content"
  let ?st1 = "storeSummary P t1 s1 filePath summaryText' content'"
  have post: "evictPost ?st0 s1"
    using stored unfolding setSummary_def by (rule evictIfNeeded_result)
  have entry0: "map_option contentHash (map_of (summaries ?st0) ?np) = Some (hashContent P content)"
    by (simp add: storeSummary_def updateAccessOrder_def Let_def AList.update_conv')
  have "map_of (summaries s1) ?np = None \<or> map_of (summaries s1) ?np = map_of (summaries ?st0) ?np"
    using post unfolding evictPost_def by blast
  moreover have "map_of (summaries s1) ?np \<noteq> None"
    using tracked by (simp add: getSummary_def)
  ultimately have same: "map_of (summaries s1) ?np = map_of (summaries ?st0) ?np"
    by blast
  with entry0 obtain cached where cached: "map_of (summaries s1) ?np = Some cached"
    "contentHash cached = hashContent P content"
    by auto
  have stale: "isStale P fs s1 filePath"
    using cached disk changed by (simp add: isStale_def)
  have fits: "\<not> overLimit s1"
    using post by (simp add: evictPost_def)
  have "length (summaries ?st1) = length (summaries s1)"
    using cached(1) by (simp add: storeSummary_def updateAccessOrder_def Let_def map_of_update_length)
  moreover have "config ?st1 = config s1"
    by (simp add: storeSummary_fields)
  ultimately have "\<not> overLimit ?st1"
    using fits by (simp add: overLimit_def)
  then have run: "setSummary P t1 s1 filePath summaryText' content' = Some ?st1"
    unfolding setSummary_def by (rule evictIfNeeded_done)
  have "map_option contentHash (map_of (summaries ?st1) ?np) = Some (hashContent P content')"
    by (simp add: storeSummary_def updateAccessOrder_def Let_def AList.update_conv')
  then have fresh: "\<not> isStale P fs ?st1 filePath"
    using disk by (auto simp: isStale_def)
  from stale run fresh show ?thesis by blast
qed

theorem staleness_round_trip_witness:
  "setSummary samplePlatform 0 (sampleState 50) ''/work/a.rs'' ''A'' ''old'' = Some trackedA
   \<and> getSummary samplePlatform trackedA ''/work/a.rs'' \<noteq> None
   \<and> readFileSync (sampleDisk [(''/work/a.rs'', ''new'')]) ''/work/a.rs'' = Inr ''new''
   \<and> hashContent samplePlatform ''new'' \<noteq> hashContent samplePlatform ''old''
   \<and> isStale samplePlatform (sampleDisk [(''/work/a.rs'', ''new'')]) trackedA ''/work/a.rs''
   \<and> (\<exists>s2. setSummary samplePlatform 1 trackedA ''/work/a.rs'' ''A2'' ''new'' = Some s2
            \<and> \<not> isStale samplePlatform (sampleDisk [(''/work/a.rs'', ''new'')]) s2 ''/work/a.rs'')"
proof -
  have 1: "setSummary samplePlatform 0 (sampleState 50) ''/work/a.rs'' ''A'' ''old'' = Some trackedA"
    by (simp add: trackedA_def state_defs evictIfNeeded.simps)
  have 2: "getSummary samplePlatform trackedA ''/work/a.rs'' \<noteq> None"
    by (simp add: trackedA_def getSummary_def state_defs)
  have 3: "readFileSync (sampleDisk [(''/work/a.rs'', ''new'')]) ''/work/a.rs'' = Inr ''new''"
    by (simp add: readFileSync_def sampleDisk_def)
  have 4: "hashContent samplePlatform ''new'' \<noteq> hashContent samplePlatform ''old''"
    by (simp add: hashContent_def samplePlatform_def)
  from staleness_round_trip[OF 1 2 3 4, of 1 "''A2''"] 1 2 3 4 show ?thesis
    by simp
qed

subsection \<open>Claim C8\<close>

text \<open>
  C8 as stated gives the header line as \<^verbatim>\<open>=== <relativePath> [FULL] ===\<close>. The line that
  \<^verbatim>\<open>formatFileHeader\<close> produces starts with the comment marker \<^verbatim>\<open>// \<close>, so the stated text
  is not what is emitted.
\<close>

theorem formatFileHeader_not_bare:
  "formatFileHeader ''src/a.rs'' False \<noteq> ''=== src/a.rs [FULL] ===''
   \<and> formatFileHeader ''src/a.rs'' True \<noteq> ''=== src/a.rs [SUMMARY] ===''"
  by (simp add: formatFileHeader_def)

text \<open>
  C8, amended: for every relative path the header is exactly
  \<^verbatim>\<open>// === <relativePath> [FULL] ===\<close> for full content and
  \<^verbatim>\<open>// === <relativePath> [SUMMARY] ===\<close> for a summary.
\<close>

theorem formatFileHeader_exact:
  "formatFileHeader relPath False = ''// === '' @ relPath @ '' [FULL] ===''
   \<and> formatFileHeader relPath True = ''// === '' @ relPath @ '' [SUMMARY] ===''"
  by (simp add: formatFileHeader_def)

subsection \<open>Claim C7\<close>

lemma activeSizeOf_fails_iff:
  "activeSizeOf fs status = Inl e \<longleftrightarrow>
     (\<exists>a. st_activeFile status = Some a \<and> a \<noteq> [] \<and> files fs a = None \<and> e = FsReadError a)"
  by (auto simp: activeSizeOf_def readFileSync_def split: option.splits)

text \<open>
  When \<^verbatim>\<open>fileStatus\<close> fails: exactly when at least one summary is cached and the active
  file cannot be read. The error is the one of the unguarded read in the totals.
\<close>

lemma fileStatus_fails_iff:
  "fileStatus P fs s = Inl e \<longleftrightarrow>
     summaries s \<noteq> []
     \<and> (\<exists>a. activeFile s = Some a \<and> a \<noteq> [] \<and> files fs a = None \<and> e = FsReadError a)"
proof -
  have st: "st_summaries (getStatus s) = [] \<longleftrightarrow> summaries s = []"
    "st_activeFile (getStatus s) = activeFile s"
    by (simp_all add: getStatus_def Let_def)
  show ?thesis
  proof (cases "summaries s = []")
    case True
    then show ?thesis by (simp add: fileStatus_def Let_def st)
  next
    case False
    then have "fileStatus P fs s = Inl e \<longleftrightarrow> activeSizeOf fs (getStatus s) = Inl e"
      by (simp add: fileStatus_def Let_def st split: sum.splits)
    with False show ?thesis
      by (simp add: activeSizeOf_fails_iff st)
  qed
qed

text \<open>
  C7 says that \<^verbatim>\<open>status()\<close> does not fail when the active file cannot be read, also when
  summaries are cached. The code fails there: after \<^verbatim>\<open>read_file /work/b.rs\<close> and
  \<^verbatim>\<open>read_file /work/a.rs\<close> the file \<^verbatim>\<open>/work/b.rs\<close> is cached and \<^verbatim>\<open>/work/a.rs\<close> is active;
  once \<^verbatim>\<open>/work/a.rs\<close> is gone from the disk, \<^verbatim>\<open>fileStatus\<close> throws the read error instead
  of returning the report.
\<close>

theorem fileStatus_throws_when_active_vanished:
  "readFile samplePlatform 0 bothOnDisk (sampleState 50) ''/work/b.rs''
     = Some (Inr (formatFileHeader ''b.rs'' False @ [nl, nl] @ ''pub fn b() {}''), activeB)
   \<and> readFile samplePlatform 1 bothOnDisk activeB ''/work/a.rs''
     = Some (Inr (formatFileHeader ''a.rs'' False @ [nl, nl] @ ''pub fn a() {}''), activeA_cachedB)
   \<and> fileStatus samplePlatform (sampleDisk [(''/work/b.rs'', ''pub fn b() {}'')]) activeA_cachedB
     = Inl (FsReadError ''/work/a.rs'')"
proof (intro conjI)
  show "readFile samplePlatform 0 bothOnDisk (sampleState 50) ''/work/b.rs''
     = Some (Inr (formatFileHeader ''b.rs'' False @ [nl, nl] @ ''pub fn b() {}''), activeB)"
    by (simp add: readFile_def summarizePrevious_def bothOnDisk_def activeB_def tool_defs state_defs)
  show "readFile samplePlatform 1 bothOnDisk activeB ''/work/a.rs''
     = Some (Inr (formatFileHeader ''a.rs'' False @ [nl, nl] @ ''pub fn a() {}''), activeA_cachedB)"
    by (simp add: readFile_def summarizePrevious_def summarizeFile_def parseFile_def parseRust_def
        rustSupports_def strIncludes_def bothOnDisk_def activeB_def activeA_cachedB_def
        tool_defs state_defs evictIfNeeded.simps)
  show "fileStatus samplePlatform (sampleDisk [(''/work/b.rs'', ''pub fn b() {}'')]) activeA_cachedB
     = Inl (FsReadError ''/work/a.rs'')"
    by (simp add: fileStatus_fails_iff activeA_cachedB_def sampleDisk_def sampleState_def
        newContextState_def)
qed

text \<open>With nothing cached the guarded read alone runs, and the report says so.\<close>

lemma fileStatus_reports_not_found_without_cache:
  "fileStatus samplePlatform (sampleDisk []) activeB
     = Inr (strJoin [nl] [''Context Status'', ''=============='', [], ''Active: b.rs (file not found)'',
              [], ''Cached Summaries: (none)'', []])"
  by (simp add: fileStatus_def getStatus_def activeLine_def cachedLines_def activeB_def
      tool_defs state_defs)

subsection \<open>Claim C2\<close>

text \<open>\<^verbatim>\<open>includes\<close> holds exactly when the pattern occurs at some position.\<close>

lemma indexOf_Some_iff:
  "indexOf s pat \<noteq> None \<longleftrightarrow> (\<exists>i \<le> length s. prefix pat (drop i s))"
proof (induction s)
  case Nil
  then show ?case by auto
next
  case (Cons c cs)
  show ?case
  proof (cases "prefix pat (c # cs)")
    case True
    then have "prefix pat (drop 0 (c # cs))" by simp
    then have "\<exists>i \<le> length (c # cs). prefix pat (drop i (c # cs))" by blast
    with True show ?thesis by simp
  next
    case False
    have "(\<exists>i \<le> length (c # cs). prefix pat (drop i (c # cs))) \<longleftrightarrow> (\<exists>i \<le> length cs. prefix pat (drop i cs))"
    proof
      assume "\<exists>i \<le> length (c # cs). prefix pat (drop i (c # cs))"
      then obtain i where i: "i \<le> length (c # cs)" "prefix pat (drop i (c # cs))" by blast
      with False obtain j where "i = Suc j" by (cases i) auto
      with i show "\<exists>i \<le> length cs. prefix pat (drop i cs)" by auto
    next
      assume "\<exists>i \<le> length cs. prefix pat (drop i cs)"
      then obtain j where "j \<le> length cs" "prefix pat (drop j cs)" by blast
      then have "Suc j \<le> length (c # cs)" "prefix pat (drop (Suc j) (c # cs))" by auto
      then show "\<exists>i \<le> length (c # cs). prefix pat (drop i (c # cs))" by blast
    qed
    with False Cons.IH show ?thesis by (simp add: option.map_disc_iff)
  qed
qed

lemma strIncludes_iff_occurs:
  "strIncludes content pat \<longleftrightarrow> occurrencePositions content pat \<noteq> []"
proof -
  have "occurrencePositions content pat \<noteq> [] \<longleftrightarrow> (\<exists>i \<le> length content. prefix pat (drop i content))"
    by (auto simp: occurrencePositions_def filter_empty_conv less_Suc_eq_le simp del: upt_Suc)
  then show ?thesis
    unfolding strIncludes_def using indexOf_Some_iff[of content pat] by blast
qed

text \<open>
  The two rejections of \<^verbatim>\<open>editFile\<close>: the text does not occur, or \<^verbatim>\<open>split\<close> finds it more
  than once. Both leave the file and the state as they were.
\<close>

lemma editFile_not_found:
  assumes "readFileSync fs (absolutePathOf P filePath) = Inr content"
    and "occurrencePositions content oldString = []"
  shows "editFile P now fs s filePath oldString newString
    = Some (Inl (JsError (notFoundMessage (getRelativePath P s (absolutePathOf P filePath)))), fs, s)"
  using assms by (simp add: editFile_def Let_def strIncludes_iff_occurs)

lemma editFile_ambiguous:
  assumes "readFileSync fs (absolutePathOf P filePath) = Inr content"
    and "strIncludes content oldString"
    and "int (length (strSplit content oldString)) - 1 > 1"
  shows "editFile P now fs s filePath oldString newString
    = Some (Inl (JsError (ambiguousMessage (int (length (strSplit content oldString)) - 1)
                  (getRelativePath P s (absolutePathOf P filePath)))), fs, s)"
  using assms by (simp add: editFile_def Let_def)

text \<open>
  A replacement text without a dollar sign is inserted as it is, and whatever
  \<^verbatim>\<open>editFile\<close> writes is the result of \<^verbatim>\<open>String.prototype.replace\<close>.
\<close>

lemma getSubstitution_plain:
  "CHR ''$'' \<notin> set replaceValue \<Longrightarrow> getSubstitution matched str position replaceValue = replaceValue"
  by (induction matched str position replaceValue rule: getSubstitution.induct) auto

lemma strReplace_plain:
  assumes "indexOf s searchValue = Some position" "CHR ''$'' \<notin> set replaceValue"
  shows "strReplace s searchValue replaceValue
    = take position s @ replaceValue @ drop (position + length searchValue) s"
  using assms by (simp add: strReplace_def getSubstitution_plain)

lemma editFile_written:
  assumes "editFile P now fs s filePath oldString newString = Some (Inr message, fs', s')"
    and "readFileSync fs (absolutePathOf P filePath) = Inr content"
  shows "files fs' (absolutePathOf P filePath) = Some (strReplace content oldString newString)"
  using assms
  by (auto simp: editFile_def Let_def writeFileSync_def split: if_splits sum.splits option.splits)

text \<open>
  C2 says that an edit whose old text occurs exactly once writes the old content with
  that occurrence replaced by the new text. The code passes the new text to
  \<^verbatim>\<open>String.prototype.replace\<close> as a replacement pattern: in the shell script \<^verbatim>\<open>echo X\<close>
  the edit of \<^verbatim>\<open>X\<close> to \<^verbatim>\<open>$$\<close> succeeds and writes \<^verbatim>\<open>echo $\<close>, not \<^verbatim>\<open>echo $$\<close>.
\<close>

theorem editFile_expands_dollar_patterns:
  "editFile samplePlatform 0 (sampleDisk [(''/work/build.sh'', ''echo X'')]) (sampleState 50)
        ''/work/build.sh'' ''X'' ''$$''
   = Some (Inr ''Successfully edited build.sh (unsupported file type - not tracked)'',
           sampleDisk [(''/work/build.sh'', ''echo $'')],
           sampleState 50)"
  by (simp add: editFile_def strIncludes_def strSplit_def strReplace_def tool_defs state_defs
      fun_eq_iff)

text \<open>The same in a tracked file: \<^verbatim>\<open>$$total\<close> is written as \<^verbatim>\<open>$total\<close>.\<close>

lemma editFile_php_dollar_patterns:
  "editFile samplePlatform 0 (sampleDisk [(''/work/a.php'', ''echo X;'')]) (sampleState 50)
        ''/work/a.php'' ''X'' ''$$total''
   = Some (Inr ''Successfully edited a.php'',
           sampleDisk [(''/work/a.php'', ''echo $total;'')],
           (sampleState 50)\<lparr>activeFile := Some ''/work/a.php'', accessOrder := [''/work/a.php'']\<rparr>)"
  by (simp add: editFile_def activateAndCache_def summarizePrevious_def parseFile_def
      rustSupports_def pythonSupports_def tsSupports_def phpSupports_def parsePHP_def
      strIncludes_def strSplit_def strReplace_def tool_defs state_defs fun_eq_iff)

text \<open>
  The count of \<^verbatim>\<open>split\<close> is the number of matches of a scan that resumes behind each
  match: \<^verbatim>\<open>aa\<close> occurs at two positions of \<^verbatim>\<open>aaa\<close>, the count is one, and the edit goes
  through at the first of them.
\<close>

lemma editFile_overlapping_occurrences:
  "occurrencePositions ''aaa'' ''aa'' = [0, 1]
   \<and> map_option (\<lambda>(r, fs', s'). (r, files fs' ''/work/notes.txt''))
     (editFile samplePlatform 0 (sampleDisk [(''/work/notes.txt'', ''aaa'')]) (sampleState 50)
        ''/work/notes.txt'' ''aa'' ''b'')
   = Some (Inr ''Successfully edited notes.txt (unsupported file type - not tracked)'', Some ''ba'')"
  by (simp add: editFile_def occurrencePositions_def
      strIncludes_def strSplit_def strReplace_def tool_defs state_defs)

text \<open>
  An empty old text is found in every content and counted as the code units of the
  content minus one: on a content of two letters the edit goes through and puts the new
  text in front.
\<close>

lemma editFile_empty_old_string:
  "editFile samplePlatform 0 (sampleDisk [(''/work/notes.txt'', [CHR 0xC3, CHR 0xA9, CHR 0xC3, CHR 0xA9])])
        (sampleState 50) ''/work/notes.txt'' [] ''Y''
   = Some (Inr ''Successfully edited notes.txt (unsupported file type - not tracked)'',
           sampleDisk [(''/work/notes.txt'', ''Y'' @ [CHR 0xC3, CHR 0xA9, CHR 0xC3, CHR 0xA9])],
           sampleState 50)"
  by (simp add: editFile_def strIncludes_def strSplit_def strReplace_def tool_defs state_defs
      fun_eq_iff)

subsection \<open>Claim C5\<close>

text \<open>
  For a path whose extension no parser matches, each tool stops before it touches the
  state: what it returns is decided by the file system and, for \<^verbatim>\<open>editFile\<close>, by the
  occurrence checks.
\<close>

lemma readFile_unsupported:
  assumes "\<not> isSupported P (absolutePathOf P filePath)"
  shows "readFile P now fs s filePath =
     Some (case readFileSync fs (absolutePathOf P filePath) of
             Inl e \<Rightarrow> Inl e
           | Inr content \<Rightarrow>
               Inr (formatFileHeader (getRelativePath P s (absolutePathOf P filePath)) False @ [nl]
                    @ ''// (Unsupported file type - not tracked for compaction)'' @ [nl, nl] @ content),
           s)"
  using assms by (simp add: readFile_def Let_def split: sum.splits)

lemma peekFile_unsupported:
  assumes "\<not> isSupported P (absolutePathOf P filePath)"
  shows "peekFile P now fs s filePath =
     Some (case readFileSync fs (absolutePathOf P filePath) of
             Inl e \<Rightarrow> Inl e
           | Inr content \<Rightarrow>
               Inr (formatFileHeader (getRelativePath P s (absolutePathOf P filePath)) False @ [nl]
                    @ ''// (Unsupported file type - returning full contents)'' @ [nl, nl] @ content),
           s)"
  using assms by (simp add: peekFile_def Let_def split: sum.splits)

lemma editFile_unsupported_state:
  assumes "\<not> isSupported P (absolutePathOf P filePath)"
  shows "\<exists>r fs'. editFile P now fs s filePath oldString newString = Some (r, fs', s)"
  using assms by (simp add: editFile_def Let_def split: sum.splits)

lemma editFile_unsupported_success:
  assumes "\<not> isSupported P (absolutePathOf P filePath)"
    and "readFileSync fs (absolutePathOf P filePath) = Inr content"
    and "strIncludes content oldString"
    and "int (length (strSplit content oldString)) - 1 \<le> 1"
    and "\<not> readOnly fs (absolutePathOf P filePath)"
  shows "editFile P now fs s filePath oldString newString =
     Some (Inr (''Successfully edited '' @ getRelativePath P s (absolutePathOf P filePath)
                @ '' (unsupported file type - not tracked)''),
           fs\<lparr>files := (files fs)(absolutePathOf P filePath \<mapsto> strReplace content oldString newString)\<rparr>,
           s)"
  using assms by (simp add: editFile_def Let_def writeFileSync_def)

lemma writeFile_unsupported:
  assumes "\<not> isSupported P (absolutePathOf P filePath)"
  shows "writeFile P now fs s filePath content =
     (if readOnly fs (absolutePathOf P filePath)
      then Some (Inl (FsWriteError (absolutePathOf P filePath)), fs, s)
      else Some (Inr (''Successfully wrote '' @ getRelativePath P s (absolutePathOf P filePath)
                      @ '' (unsupported file type - not tracked)''),
                 fs\<lparr>files := (files fs)(absolutePathOf P filePath \<mapsto> content)\<rparr>, s))"
  using assms by (simp add: writeFile_def Let_def writeFileSync_def)

text \<open>
  C5 as stated has every operation on an unsupported path complete without error. The
  operations still throw what they throw for any file: on the existing file
  \<^verbatim>\<open>/work/notes.txt\<close> an edit whose old text does not occur is rejected, and reading a
  file that is not on disk fails.
\<close>

theorem unsupported_edit_and_read_can_fail:
  "\<not> isSupported samplePlatform (absolutePathOf samplePlatform ''/work/notes.txt'')
   \<and> editFile samplePlatform 0 (sampleDisk [(''/work/notes.txt'', ''hello'')]) (sampleState 50)
        ''/work/notes.txt'' ''X'' ''Y''
      = Some (Inl (JsError (notFoundMessage ''notes.txt'')),
              sampleDisk [(''/work/notes.txt'', ''hello'')], sampleState 50)
   \<and> readFile samplePlatform 0 (sampleDisk []) (sampleState 50) ''/work/notes.txt''
      = Some (Inl (FsReadError ''/work/notes.txt''), sampleState 50)"
  by (simp add: editFile_def readFile_def strIncludes_def tool_defs state_defs)

text \<open>
  C5, amended: for a path whose extension has no matching parser, each of \<^verbatim>\<open>readFile\<close>,
  \<^verbatim>\<open>peekFile\<close>, \<^verbatim>\<open>editFile\<close> and \<^verbatim>\<open>writeFile\<close> returns and leaves the state exactly as
  it was, whether it succeeds or throws; \<^verbatim>\<open>readFile\<close> and \<^verbatim>\<open>peekFile\<close> return the full
  content whenever the file can be read, \<^verbatim>\<open>editFile\<close> returns its success message
  whenever the file can be read, the old text passes the two occurrence checks and the
  write succeeds, and \<^verbatim>\<open>writeFile\<close> returns its success message whenever the write
  succeeds.
\<close>

theorem unsupported_passthrough:
  assumes "\<not> isSupported P (absolutePathOf P filePath)"
  shows "(\<exists>r. readFile P now fs s filePath = Some (r, s)
            \<and> (\<forall>content. readFileSync fs (absolutePathOf P filePath) = Inr content \<longrightarrow>
                 r = Inr (formatFileHeader (getRelativePath P s (absolutePathOf P filePath)) False @ [nl]
                          @ ''// (Unsupported file type - not tracked for compaction)''
                          @ [nl, nl] @ content)))
    \<and> (\<exists>r. peekFile P now fs s filePath = Some (r, s)
            \<and> (\<forall>content. readFileSync fs (absolutePathOf P filePath) = Inr content \<longrightarrow>
                 r = Inr (formatFileHeader (getRelativePath P s (absolutePathOf P filePath)) False @ [nl]
                          @ ''// (Unsupported file type - returning full contents)''
                          @ [nl, nl] @ content)))
    \<and> (\<exists>r fs'. editFile P now fs s filePath oldString newString = Some (r, fs', s)
            \<and> (\<forall>content. readFileSync fs (absolutePathOf P filePath) = Inr content
                   \<and> strIncludes content oldString
                   \<and> int (length (strSplit content oldString)) - 1 \<le> 1
                   \<and> \<not> readOnly fs (absolutePathOf P filePath) \<longrightarrow>
                 r = Inr (''Successfully edited '' @ getRelativePath P s (absolutePathOf P filePath)
                          @ '' (unsupported file type - not tracked)'')))
    \<and> (\<exists>r fs'. writeFile P now fs s filePath newContent = Some (r, fs', s)
            \<and> (\<not> readOnly fs (absolutePathOf P filePath) \<longrightarrow>
                 r = Inr (''Successfully wrote '' @ getRelativePath P s (absolutePathOf P filePath)
                          @ '' (unsupported file type - not tracked)'')))"
proof (intro conjI)
  show "\<exists>r. readFile P now fs s filePath = Some (r, s)
            \<and> (\<forall>content. readFileSync fs (absolutePathOf P filePath) = Inr content \<longrightarrow>
                 r = Inr (formatFileHeader (getRelativePath P s (absolutePathOf P filePath)) False @ [nl]
                          @ ''// (Unsupported file type - not tracked for compaction)''
                          @ [nl, nl] @ content))"
    by (simp add: readFile_unsupported[OF assms])
  show "\<exists>r. peekFile P now fs s filePath = Some (r, s)
            \<and> (\<forall>content. readFileSync fs (absolutePathOf P filePath) = Inr content \<longrightarrow>
                 r = Inr (formatFileHeader (getRelativePath P s (absolutePathOf P filePath)) False @ [nl]
                          @ ''// (Unsupported file type - returning full contents)''
                          @ [nl, nl] @ content))"
    by (simp add: peekFile_unsupported[OF assms])
  from editFile_unsupported_state[OF assms, of now fs s oldString newString]
  obtain r fs' where e: "editFile P now fs s filePath oldString newString = Some (r, fs', s)"
    by blast
  have "r = Inr (''Successfully edited '' @ getRelativePath P s (absolutePathOf P filePath)
                          @ '' (unsupported file type - not tracked)'')"
    if "readFileSync fs (absolutePathOf P filePath) = Inr content"
      "strIncludes content oldString"
      "int (length (strSplit content oldString)) - 1 \<le> 1"
      "\<not> readOnly fs (absolutePathOf P filePath)" for content
    using editFile_unsupported_success[OF assms that, of now s newString] e by simp
  with e show "\<exists>r fs'. editFile P now fs s filePath oldString newString = Some (r, fs', s)
            \<and> (\<forall>content. readFileSync fs (absolutePathOf P filePath) = Inr content
                   \<and> strIncludes content oldString
                   \<and> int (length (strSplit content oldString)) - 1 \<le> 1
                   \<and> \<not> readOnly fs (absolutePathOf P filePath) \<longrightarrow>
                 r = Inr (''Successfully edited '' @ getRelativePath P s (absolutePathOf P filePath)
                          @ '' (unsupported file type - not tracked)''))"
    by blast
  show "\<exists>r fs'. writeFile P now fs s filePath newContent = Some (r, fs', s)
            \<and> (\<not> readOnly fs (absolutePathOf P filePath) \<longrightarrow>
                 r = Inr (''Successfully wrote '' @ getRelativePath P s (absolutePathOf P filePath)
                          @ '' (unsupported file type - not tracked)''))"
    by (simp add: writeFile_unsupported[OF assms])
qed

theorem unsupported_passthrough_witness:
  "\<not> isSupported samplePlatform (absolutePathOf samplePlatform ''notes.txt'')
   \<and> readFile samplePlatform 0 (sampleDisk [(''/work/notes.txt'', ''hello X'')]) stateA ''notes.txt''
      = Some (Inr (formatFileHeader ''notes.txt'' False @ [nl]
                   @ ''// (Unsupported file type - not tracked for compaction)'' @ [nl, nl] @ ''hello X''),
              stateA)
   \<and> (\<exists>r fs'. editFile samplePlatform 0 (sampleDisk [(''/work/notes.txt'', ''hello X'')]) stateA
                  ''notes.txt'' ''X'' ''Y'' = Some (r, fs', stateA)
         \<and> r = Inr ''Successfully edited notes.txt (unsupported file type - not tracked)'')"
proof -
  have u: "\<not> isSupported samplePlatform (absolutePathOf samplePlatform ''notes.txt'')"
    by (simp add: tool_defs state_defs)
  have rd: "readFileSync (sampleDisk [(''/work/notes.txt'', ''hello X'')])
      (absolutePathOf samplePlatform ''notes.txt'') = Inr ''hello X''"
    by (simp add: tool_defs state_defs)
  have ok: "strIncludes ''hello X'' ''X''" "int (length (strSplit ''hello X'' ''X'')) - 1 \<le> 1"
    "\<not> readOnly (sampleDisk [(''/work/notes.txt'', ''hello X'')]) (absolutePathOf samplePlatform ''notes.txt'')"
    by (simp_all add: strIncludes_def strSplit_def sampleDisk_def)
  have rel: "getRelativePath samplePlatform stateA (absolutePathOf samplePlatform ''notes.txt'') = ''notes.txt''"
    by (simp add: tool_defs state_defs)
  from unsupported_passthrough[OF u, of 0 "sampleDisk [(''/work/notes.txt'', ''hello X'')]" stateA "''X''" "''Y''"]
    u rd ok rel
  show ?thesis
    by auto
qed

subsection \<open>Claim C6\<close>

lemma forget_result:
  "fst (forget P s filePath) = (getSummary P s filePath \<noteq> None)"
  by (simp add: forget_def getSummary_def Let_def)

lemma forget_accessOrder:
  "accessOrder (snd (forget P s filePath)) = filter (\<lambda>p. p \<noteq> normalizePath P filePath) (accessOrder s)"
  by (simp add: forget_def Let_def)

lemma forget_summaries:
  "map_of (summaries (snd (forget P s filePath))) q =
     (if q = normalizePath P filePath then None else map_of (summaries s) q)"
  by (simp add: forget_def Let_def AList.delete_conv')

lemma forget_activeFile:
  "getActiveFile (snd (forget P s filePath)) = (if isActive P s filePath then None else getActiveFile s)"
  by (simp add: forget_def Let_def getActiveFile_def isActive_def)

lemma normalizePath_absolutePathOf:
  "resolveLaws P \<Longrightarrow> normalizePath P (absolutePathOf P filePath) = normalizePath P filePath"
  by (simp add: normalizePath_def absolutePathOf_def resolveLaws_def)

lemma readFile_activates:
  assumes "isSupported P (absolutePathOf P filePath)"
    and "readFile P now fs s filePath = Some (Inr text, s1)"
  shows "activeFile s1 = Some (normalizePath P (absolutePathOf P filePath))"
  using assms
  by (auto simp: readFile_def Let_def setActiveFile_def updateAccessOrder_def
      split: sum.splits option.splits)

text \<open>
  C6 as stated has \<^verbatim>\<open>getActiveFile()\<close> return none after \<^verbatim>\<open>read(A)\<close> and \<^verbatim>\<open>forget(A)\<close>
  for every \<open>A\<close>. A read of an unsupported file does not make it active: with
  \<^verbatim>\<open>/work/b.rs\<close> active, reading and then forgetting \<^verbatim>\<open>/work/notes.txt\<close> leaves
  \<^verbatim>\<open>/work/b.rs\<close> active.
\<close>

theorem forget_after_untracked_read_keeps_active:
  "readFile samplePlatform 0 (sampleDisk [(''/work/notes.txt'', ''hello'')]) activeB ''/work/notes.txt''
     = Some (Inr (formatFileHeader ''notes.txt'' False @ [nl]
                  @ ''// (Unsupported file type - not tracked for compaction)'' @ [nl, nl] @ ''hello''),
             activeB)
   \<and> getActiveFile (snd (forgetFile samplePlatform activeB ''/work/notes.txt'')) = Some ''/work/b.rs''"
  by (simp add: readFile_def forgetFile_def forget_def activeB_def tool_defs state_defs)

text \<open>
  C6, amended: \<^verbatim>\<open>forget(path)\<close> returns true if and only if a summary entry existed for
  the normalized path; in every case it removes the path from the recency list and the
  entry from the cache and, if the path was the active file, clears the active pointer
  (which it leaves alone otherwise); in particular, after a \<^verbatim>\<open>read(A)\<close> that returns the
  content of a file \<open>A\<close> with a supported extension, followed by \<^verbatim>\<open>forget(A)\<close>,
  \<^verbatim>\<open>getActiveFile()\<close> returns none and \<^verbatim>\<open>getSummary(A)\<close> returns none.
\<close>

theorem forget_clears_tracking:
  "fst (forget P s filePath) = (getSummary P s filePath \<noteq> None)
   \<and> normalizePath P filePath \<notin> set (accessOrder (snd (forget P s filePath)))
   \<and> getSummary P (snd (forget P s filePath)) filePath = None
   \<and> getActiveFile (snd (forget P s filePath)) = (if isActive P s filePath then None else getActiveFile s)
   \<and> (resolveLaws P \<longrightarrow> isSupported P (absolutePathOf P filePath) \<longrightarrow>
        readFile P now fs s filePath = Some (Inr text, s1) \<longrightarrow>
          getActiveFile (snd (forgetFile P s1 filePath)) = None
          \<and> getSummary P (snd (forgetFile P s1 filePath)) filePath = None)"
proof (intro conjI impI)
  show "fst (forget P s filePath) = (getSummary P s filePath \<noteq> None)"
    by (rule forget_result)
  show "normalizePath P filePath \<notin> set (accessOrder (snd (forget P s filePath)))"
    by (simp add: forget_accessOrder)
  show "getSummary P (snd (forget P s filePath)) filePath = None"
    by (simp add: getSummary_def forget_summaries)
  show "getActiveFile (snd (forget P s filePath)) = (if isActive P s filePath then None else getActiveFile s)"
    by (rule forget_activeFile)
next
  assume laws: "resolveLaws P"
    and sup: "isSupported P (absolutePathOf P filePath)"
    and rd: "readFile P now fs s filePath = Some (Inr text, s1)"
  have fg: "snd (forgetFile P s1 filePath) = snd (forget P s1 (absolutePathOf P filePath))"
    by (simp add: forgetFile_def Let_def split: prod.splits)
  have act: "isActive P s1 (absolutePathOf P filePath)"
    using readFile_activates[OF sup rd] by (simp add: isActive_def)
  show "getActiveFile (snd (forgetFile P s1 filePath)) = None"
    using act by (simp add: fg forget_activeFile)
  show "getSummary P (snd (forgetFile P s1 filePath)) filePath = None"
    using normalizePath_absolutePathOf[OF laws, of filePath]
    by (simp add: fg getSummary_def forget_summaries)
qed

theorem forget_clears_tracking_witness:
  "resolveLaws samplePlatform
   \<and> isSupported samplePlatform (absolutePathOf samplePlatform ''b.rs'')
   \<and> readFile samplePlatform 0 bothOnDisk (sampleState 50) ''b.rs''
       = Some (Inr (formatFileHeader ''b.rs'' False @ [nl, nl] @ ''pub fn b() {}''), activeB)
   \<and> getActiveFile activeB = Some ''/work/b.rs''
   \<and> getActiveFile (snd (forgetFile samplePlatform activeB ''b.rs'')) = None
   \<and> getSummary samplePlatform (snd (forgetFile samplePlatform activeB ''b.rs'')) ''b.rs'' = None
   \<and> isActive samplePlatform stateA ''/work/a.rs''
   \<and> fst (forget samplePlatform stateA ''/work/a.rs'')
   \<and> getActiveFile (snd (forget samplePlatform stateA ''/work/a.rs'')) = None"
proof -
  have laws: "resolveLaws samplePlatform"
    by (simp add: resolveLaws_def samplePlatform_def)
  have sup: "isSupported samplePlatform (absolutePathOf samplePlatform ''b.rs'')"
    by (simp add: tool_defs state_defs)
  have rd: "readFile samplePlatform 0 bothOnDisk (sampleState 50) ''b.rs''
       = Some (Inr (formatFileHeader ''b.rs'' False @ [nl, nl] @ ''pub fn b() {}''), activeB)"
    by (simp add: readFile_def summarizePrevious_def bothOnDisk_def activeB_def tool_defs state_defs)
  have act: "isActive samplePlatform stateA ''/work/a.rs''"
    by (simp add: tool_defs state_defs)
  have tr: "getSummary samplePlatform stateA ''/work/a.rs'' \<noteq> None"
    by (simp add: tool_defs state_defs)
  from forget_clears_tracking[of samplePlatform "sampleState 50" "''b.rs''" 0 bothOnDisk _ activeB]
    laws sup rd
  have 1: "getActiveFile (snd (forgetFile samplePlatform activeB ''b.rs'')) = None
      \<and> getSummary samplePlatform (snd (forgetFile samplePlatform activeB ''b.rs'')) ''b.rs'' = None"
    by blast
  from forget_clears_tracking[of samplePlatform stateA "''/work/a.rs''"] act tr
  have 2: "fst (forget samplePlatform stateA ''/work/a.rs'')
      \<and> getActiveFile (snd (forget samplePlatform stateA ''/work/a.rs'')) = None"
    by simp
  have 3: "getActiveFile activeB = Some ''/work/b.rs''"
    by (simp add: getActiveFile_def activeB_def)
  from laws sup rd act 1 2 3 show ?thesis by blast
qed

section \<open>The renderers\<close>

text \<open>
  The renderers read nothing but the model they are given, and the parsers hand the
  extracted model to them unchanged.
\<close>

lemma parseRust_success:
  "rustExtract P source = Inr m \<Longrightarrow> parseRust P source = ParseResult m (formatSummary m)"
  by (simp add: parseRust_def)

lemma parsePHP_success:
  "phpExtract P source = Inr m \<Longrightarrow> parsePHP P source = ParseResult m (formatSummaryPHP m)"
  by (simp add: parsePHP_def)

lemmas render_defs = formatSummary_def purposeSection_def reexportSection_def constantSection_def
  aliasSection_def structLines_def enumLines_def traitLines_def functionLines_def docLines_def
  deriveLines_def firstOf_def strSplit_def strTrim_def whiteSpaceChars_def nl_def sampleModel_def

lemmas php_render_defs = formatSummaryPHP_def phpPurposeSection_def reexportSection_def
  phpConstantSection_def phpEnumLines_def phpInterfaceLines_def phpClassLines_def
  phpFunctionLines_def phpDocLines_def firstOf_def strSplit_def strTrim_def whiteSpaceChars_def
  nl_def sampleModel_def

text \<open>The text of the sample model, in the Rust and in the PHP rendering.\<close>

lemma formatSummary_sampleModel:
  "formatSummary sampleModel =
     strJoin [nl] [''// Purpose: Demo module'', [], ''#[derive(Debug, Clone)]'', ''/// A point'',
       ''pub struct Point { ... }'', ''  // Public fields:'', ''  pub x: i32,'', [],
       ''pub fn run();'']"
  by (simp add: render_defs)

lemma formatSummaryPHP_sampleModel:
  "formatSummaryPHP sampleModel =
     strJoin [nl] [''<?php'', ''/**'', '' * Demo module'', '' */'', [], ''/** A point */'',
       ''Debug Clone class Point {'', ''    public i32 $x;'', ''}'', [], ''pub fn run();'']"
  by (simp add: php_render_defs)

text \<open>
  Trimming strips Unicode white space as well (here U+00A0, a tab, U+2028 and a space),
  and lengths are counted in code units: two for a text of two letters of two bytes each,
  two for one character of four bytes.
\<close>

lemma strTrim_unicode_white_space:
  "strTrim ([CHR 0xC2, CHR 0xA0, CHR 0x09] @ ''a b'' @ [CHR 0xE2, CHR 0x80, CHR 0xA8, CHR 0x20]) = ''a b''
   \<and> strTrim [CHR 0xC2, CHR 0xA0] = []"
  by (simp add: strTrim_def whiteSpaceChars_def)

lemma codeUnits_examples:
  "length (strSplit [CHR 0xC3, CHR 0xA9, CHR 0xC3, CHR 0xA9] []) = 2
   \<and> utf16Length [CHR 0xF0, CHR 0x9F, CHR 0x98, CHR 0x80] = 2
   \<and> utf16Length ''abc'' = 3
   \<and> padEnd 4 [CHR 0xC3, CHR 0xA9] = [CHR 0xC3, CHR 0xA9] @ ''   ''"
  by (simp add: strSplit_def utf16Length_def padEnd_def numeral_3_eq_3)

end
